theory Spec2Isabelle
  imports Main "HOL-Library.Sublist" "HOL-Library.AList"
begin

section \<open>Invites cog: per-guild configuration\<close>

text \<open>
  \<^verbatim>\<open>src/invites/invites.py\<close>. The cog keeps one configuration dictionary per guild
  inside \<^verbatim>\<open>self.config\<close>, keyed by \<^verbatim>\<open>str(guild.id)\<close>. The typed dictionary
  \<^verbatim>\<open>GuildConfigData\<close> becomes a record. The cache of the external \<^verbatim>\<open>Config\<close>
  wrapper is a map from keys to guild documents; the database copy is a second map that
  only \<^verbatim>\<open>await self.config.update()\<close> writes.
\<close>

subsection \<open>Python's \<^verbatim>\<open>str\<close> on integers\<close>

fun str_nat :: "nat \<Rightarrow> string" where
  "str_nat n = (if n < 10 then [''0123456789'' ! n]
                else str_nat (n div 10) @ [''0123456789'' ! (n mod 10)])"

declare str_nat.simps [simp del]

definition str_int :: "int \<Rightarrow> string" where
  "str_int i = (if i < 0 then CHR ''-'' # str_nat (nat (- i)) else str_nat (nat i))"

subsection \<open>Guild configuration and its defaults\<close>

record GuildConfigData =
  channel :: string
  webhook :: "string option"
  enable :: bool
  store_data :: bool

text \<open>\<^verbatim>\<open>Invites.default_config\<close>; \<^verbatim>\<open>str(int())\<close> is \<^verbatim>\<open>str(0)\<close>.\<close>

definition default_config :: GuildConfigData where
  "default_config =
     \<lparr>channel = str_int 0, webhook = None, enable = False, store_data = True\<rparr>"

subsection \<open>Objects of the Discord library, as far as the cog reads them\<close>

datatype error =
  ValueError | TypeError | KeyError | AttributeError | RuntimeError | Forbidden | HTTPException

record Webhook =
  wh_url :: string
  wh_token :: "string option"

text \<open>
  A text channel carries what the cog asks of it: its id and mention, the guild it
  belongs to, whether the bot is a member of that guild (\<^verbatim>\<open>guild.get_member(bot.user.id)\<close>),
  the bot's \<^verbatim>\<open>manage_webhooks\<close> permission, and the outcomes of the three awaited
  calls on it: \<^verbatim>\<open>await channel.webhooks()\<close> raises or returns the list of webhooks,
  \<^verbatim>\<open>await channel.create_webhook(...)\<close> raises or returns the new webhook, and
  \<^verbatim>\<open>await channel.send(...)\<close> raises (\<open>Some\<close> of the exception) or returns.
\<close>

record TextChannel =
  channel_id :: int
  mention :: string
  channel_guild :: int
  bot_is_member :: bool
  manage_webhooks :: bool
  webhooks :: "error + Webhook list"
  create_webhook :: "error + Webhook"
  channel_send :: "error option"

record Embed =
  title :: string
  description :: string
  footer :: string
  embed_fields :: "(string \<times> string) list"

text \<open>An embed leaves the cog either through a webhook (named by its URL) or directly.\<close>

datatype Sent = ViaWebhook string Embed | ViaChannel int Embed

fun sent_embed :: "Sent \<Rightarrow> Embed" where
  "sent_embed (ViaWebhook url e) = e"
| "sent_embed (ViaChannel c e) = e"

record Invite =
  inv_code :: string
  inv_uses :: int
  inv_channel_id :: "int option"
  inv_channel_mention :: "string option"
  inv_inviter :: "(string \<times> int) option"
  inv_created_at :: "int option"
  inv_expires_at :: "int option"

record Member =
  is_bot :: bool
  member_id :: int
  member_name :: string
  member_mention :: string
  member_guild :: int
  join_position :: nat
  account_age :: string
  joined_at :: int
  time_on_server :: string
  nick :: "string option"
  roles :: "(string \<times> bool) list"

subsection \<open>Stored invite data of a user\<close>

record InviteData =
  data_code :: string
  data_channel_id :: "int option"
  data_inviter_id :: "int option"

record GuildEntry =
  entry_invite :: "InviteData option"

text \<open>
  \<^verbatim>\<open>user_data["guilds"]\<close> is a dictionary from \<^verbatim>\<open>str(guild.id)\<close> to the entry of
  that guild: an association list with one pair per key, in insertion order.
\<close>

record UserData =
  guilds :: "(string \<times> GuildEntry) list"

record PartialInvite =
  pi_channel :: "string option"
  pi_channel_id :: "int option"
  pi_inviter :: "(string \<times> int) option"
  pi_inviter_id :: "int option"

subsection \<open>State of the cog\<close>

text \<open>
  \<open>cache\<close> is the in-memory dictionary of \<^verbatim>\<open>self.config\<close>, \<open>db\<close> the persisted
  configuration document, \<open>users\<close> the tracker's collection of user records keyed by
  user id, and \<open>sent\<close> the log embeds sent so far, oldest first.
\<close>

record State =
  cache :: "string \<rightharpoonup> GuildConfigData"
  db :: "string \<rightharpoonup> GuildConfigData"
  users :: "int \<rightharpoonup> UserData"
  sent :: "Sent list"

text \<open>
  What the host answers. \<open>py_int\<close> stands for Python's \<^verbatim>\<open>int(...)\<close> on a
  string (\<open>None\<close> when it raises \<^verbatim>\<open>ValueError\<close>), \<open>get_channel\<close> for
  \<^verbatim>\<open>bot.get_channel\<close> and \<^verbatim>\<open>guild.get_channel\<close>, and \<open>from_data\<close> for
  \<^verbatim>\<open>PartialInvite.from_data\<close>, which resolves the stored ids against the bot's caches.
  \<open>avatar_read\<close> is the outcome of \<^verbatim>\<open>await self.bot.user.display_avatar.read()\<close>
  (\<open>Some\<close> of the exception it raises, or \<open>None\<close> when it returns),
  \<open>valid_webhook_url\<close> tells whether \<^verbatim>\<open>discord.Webhook.from_url\<close> accepts a string
  (it raises \<^verbatim>\<open>ValueError\<close> otherwise), and \<open>webhook_send\<close> is the outcome of
  \<^verbatim>\<open>await webhook.send(...)\<close> on the webhook with the given URL.
\<close>

record Framework =
  py_int :: "string \<Rightarrow> int option"
  get_channel :: "int \<Rightarrow> TextChannel option"
  from_data :: "InviteData \<Rightarrow> PartialInvite"
  avatar_read :: "error option"
  valid_webhook_url :: "string \<Rightarrow> bool"
  webhook_send :: "string \<Rightarrow> error option"

text \<open>
  Modelled from the spec: \<^verbatim>\<open>Config.update\<close> of the external wrapper
  \<^verbatim>\<open>discord.ext.modmail_utils.Config\<close>, which is not part of the sources. The spec
  says the cache is the source of truth between explicit persistence calls and that the
  configuration is persisted as a whole document.
\<close>

definition config_update :: "State \<Rightarrow> State" where
  "config_update st = st\<lparr>db := cache st\<rparr>"

text \<open>
  \<^verbatim>\<open>Invites.guild_config\<close>. The Python returns the very dictionary that sits in the
  cache, so later in-place edits of the returned value are edits of the cache entry; the
  handlers below write the edited record back under the same key.
\<close>

definition guild_config :: "State \<Rightarrow> int \<Rightarrow> GuildConfigData \<times> State" where
  "guild_config st guild_id =
     (let key = str_int guild_id in
      case cache st key of
        None \<Rightarrow> (default_config, st\<lparr>cache := (cache st)(key \<mapsto> default_config)\<rparr>)
      | Some config \<Rightarrow> (config, st))"

text \<open>The in-place \<^verbatim>\<open>config.update(...)\<close> on the dictionary obtained from \<open>guild_config\<close>.\<close>

definition set_guild_config :: "State \<Rightarrow> int \<Rightarrow> GuildConfigData \<Rightarrow> State" where
  "set_guild_config st guild_id config = st\<lparr>cache := (cache st)(str_int guild_id \<mapsto> config)\<rparr>"

subsection \<open>Configuration commands\<close>

text \<open>
  \<^verbatim>\<open>Invites.invites_config_channel\<close>. The result is the description of the embed
  that is sent back (or the exception of \<^verbatim>\<open>int(...)\<close>), together with the new state.
\<close>

definition invites_config_channel ::
  "Framework \<Rightarrow> State \<Rightarrow> int \<Rightarrow> TextChannel option \<Rightarrow> (error + string) \<times> State" where
  "invites_config_channel fw st guild_id channel_arg =
     (case guild_config st guild_id of (config, st1) \<Rightarrow>
        (case channel_arg of
           None \<Rightarrow>
             (case py_int fw (channel config) of
                None \<Rightarrow> (Inl ValueError, st1)
              | Some cid \<Rightarrow>
                  (case get_channel fw cid of
                     Some ch \<Rightarrow>
                       (Inr (''Invites logging channel is currently set to '' @ mention ch @ ''.''), st1)
                   | None \<Rightarrow> (Inr ''Invites logging channel is not set.'', st1)))
         | Some ch \<Rightarrow>
             (let config' = config\<lparr>channel := str_int (channel_id ch), webhook := None\<rparr>;
                  st2 = config_update (set_guild_config st1 guild_id config')
              in (Inr (''Log channel is now set to '' @ mention ch @ ''.''), st2))))"

text \<open>
  \<^verbatim>\<open>Invites.inv_store_enable\<close>. With a mode the Python runs
  \<^verbatim>\<open>new_config = {"enable": mode}; config.update(new_config)\<close>.
\<close>

definition inv_store_enable ::
  "State \<Rightarrow> int \<Rightarrow> bool option \<Rightarrow> string \<times> State" where
  "inv_store_enable st guild_id mode_arg =
     (case guild_config st guild_id of (config, st1) \<Rightarrow>
        (case mode_arg of
           None \<Rightarrow>
             (''Invites tracking data store is currently ''
                @ (if store_data config then ''`enabled`'' else ''`disabled`'') @ ''.'', st1)
         | Some mode \<Rightarrow>
             (let config' = config\<lparr>enable := mode\<rparr>;
                  st2 = config_update (set_guild_config st1 guild_id config')
              in ((if mode then ''Enabled '' else ''Disabled '')
                    @ ''data store for invites tracking.'', st2))))"

subsection \<open>Sending a log embed\<close>

text \<open>
  Every awaited call into the Discord library can raise. An exception is a value: a
  function that can raise returns the exception next to the state it leaves behind. The
  wrapper's \<open>config_update\<close> above and the tracker's storage helpers below, which are
  modelled from the spec, are taken to return.
\<close>

text \<open>
  \<^verbatim>\<open>Invites._get_or_create_webhook\<close>. \<^verbatim>\<open>discord.utils.find\<close> returns the first
  element that satisfies the predicate. Only the call of \<^verbatim>\<open>create_webhook\<close> sits
  inside the \<^verbatim>\<open>try\<close>, and every exception it raises ends in \<^verbatim>\<open>wh = None\<close>; an
  exception of \<^verbatim>\<open>channel.webhooks()\<close> or of the avatar read leaves the method.
\<close>

definition get_or_create_webhook :: "Framework \<Rightarrow> TextChannel \<Rightarrow> error + Webhook option" where
  "get_or_create_webhook fw ch =
     (if \<not> bot_is_member ch \<or> \<not> manage_webhooks ch then Inr None
      else
        (case webhooks ch of
           Inl e \<Rightarrow> Inl e
         | Inr whs \<Rightarrow>
             (case (if whs \<noteq> [] then find (\<lambda>x. wh_token x \<noteq> None) whs else None) of
                Some wh \<Rightarrow> Inr (Some wh)
              | None \<Rightarrow>
                  (case avatar_read fw of
                     Some e \<Rightarrow> Inl e
                   | None \<Rightarrow>
                       (case create_webhook ch of
                          Inl e \<Rightarrow> Inr None
                        | Inr wh \<Rightarrow> Inr (Some wh))))))"

text \<open>
  The end of \<^verbatim>\<open>Invites.send_log_embed\<close>: \<^verbatim>\<open>send_func\<close> is \<^verbatim>\<open>webhook.send\<close>
  when there is a webhook, here given by its URL, and \<^verbatim>\<open>channel.send\<close> otherwise. The
  embed is recorded as sent when the call returns.
\<close>

definition send_func ::
  "Framework \<Rightarrow> State \<Rightarrow> TextChannel \<Rightarrow> string option \<Rightarrow> Embed \<Rightarrow> error option \<times> State" where
  "send_func fw st ch wh emb =
     (case wh of
        Some url \<Rightarrow>
          (case webhook_send fw url of
             Some e \<Rightarrow> (Some e, st)
           | None \<Rightarrow> (None, st\<lparr>sent := sent st @ [ViaWebhook url emb]\<rparr>))
      | None \<Rightarrow>
          (case channel_send ch of
             Some e \<Rightarrow> (Some e, st)
           | None \<Rightarrow> (None, st\<lparr>sent := sent st @ [ViaChannel (channel_id ch) emb]\<rparr>)))"

text \<open>
  \<^verbatim>\<open>Invites.send_log_embed\<close>. A stored URL is turned into a webhook by
  \<^verbatim>\<open>Webhook.from_url\<close>, which raises \<^verbatim>\<open>ValueError\<close> on a string that is no webhook
  URL; a webhook that was just found or created has its URL stored and the configuration
  persisted before the send.
\<close>

definition send_log_embed ::
  "Framework \<Rightarrow> State \<Rightarrow> TextChannel \<Rightarrow> Embed \<Rightarrow> error option \<times> State" where
  "send_log_embed fw st ch emb =
     (case guild_config st (channel_guild ch) of (config, st1) \<Rightarrow>
        (case webhook config of
           None \<Rightarrow>
             (case get_or_create_webhook fw ch of
                Inl e \<Rightarrow> (Some e, st1)
              | Inr None \<Rightarrow> send_func fw st1 ch None emb
              | Inr (Some wh) \<Rightarrow>
                  send_func fw
                    (config_update
                       (set_guild_config st1 (channel_guild ch) (config\<lparr>webhook := Some (wh_url wh)\<rparr>)))
                    ch (Some (wh_url wh)) emb)
         | Some url \<Rightarrow>
             (if valid_webhook_url fw url then send_func fw st1 ch (Some url) emb
              else (Some ValueError, st1))))"

subsection \<open>Strings of the log embeds\<close>

definition nl :: string where
  "nl = [CHR 0x0A]"

text \<open>The warning sign of the source text, U+26A0 U+FE0F, in UTF-8.\<close>

definition warning_sign :: string where
  "warning_sign = [CHR 0xE2, CHR 0x9A, CHR 0xA0, CHR 0xEF, CHR 0xB8, CHR 0x8F]"

fun join_str :: "string \<Rightarrow> string list \<Rightarrow> string" where
  "join_str sep [] = []"
| "join_str sep [x] = x"
| "join_str sep (x # y # ys) = x @ sep @ join_str sep (y # ys)"

text \<open>
  \<^verbatim>\<open>Invites._string_fmt_dt\<close>, with a time given in epoch seconds;
  \<^verbatim>\<open>discord.utils.format_dt(dt, "F")\<close> is the text \<^verbatim>\<open><t:SECONDS:F>\<close>.
\<close>

definition string_fmt_dt :: "int option \<Rightarrow> string" where
  "string_fmt_dt dt = (case dt of None \<Rightarrow> ''None'' | Some t \<Rightarrow> ''<t:'' @ str_int t @ '':F>'')"

definition ordinal_suffix :: "nat \<Rightarrow> string" where
  "ordinal_suffix p =
     (if 11 \<le> p mod 100 \<and> p mod 100 \<le> 13 then ''th''
      else [''th'', ''st'', ''nd'', ''rd'', ''th''] ! min (p mod 10) 4)"

definition more_than_one_note :: string where
  "more_than_one_note = nl @ warning_sign @ '' *More than 1 used invites are predicted.*'' @ nl"

definition unresolved_note :: string where
  "unresolved_note =
     nl @ warning_sign @ '' *Something went wrong! Invite info could not be resolved.*'' @ nl"

definition inviter_text :: "(string \<times> int) option \<Rightarrow> string" where
  "inviter_text inviter =
     (case inviter of
        Some (name, uid) \<Rightarrow> ''Name: '' @ name @ nl @ ''ID: `'' @ str_int uid @ ''`''
      | None \<Rightarrow> ''`None`'')"

text \<open>\<^verbatim>\<open>discord.Invite\<close> objects are equal when their codes are equal.\<close>

definition is_vanity :: "Invite \<Rightarrow> Invite option \<Rightarrow> bool" where
  "is_vanity i vanity_inv = (case vanity_inv of None \<Rightarrow> False | Some v \<Rightarrow> inv_code i = inv_code v)"

subsection \<open>Member join\<close>

text \<open>The embed that \<^verbatim>\<open>Invites.on_member_join\<close> builds before it sends it.\<close>

definition join_embed :: "Member \<Rightarrow> Invite list \<Rightarrow> Invite option \<Rightarrow> Embed" where
  "join_embed member pred_invs vanity_inv =
     (let desc = member_mention member @ '' is the '' @ str_nat (join_position member)
                   @ ordinal_suffix (join_position member) @ '' to join.'';
          e0 = \<lparr>title = member_name member @ '' just joined.'',
                description = desc @ nl,
                footer = ''User ID: '' @ str_int (member_id member),
                embed_fields = [(''Account created:'', account_age member)]\<rparr>
      in if pred_invs \<noteq> [] then
           (let e1 = e0\<lparr>embed_fields := embed_fields e0 @
                      [(''Invite code:'',
                        join_str nl (map (\<lambda>i. if \<not> is_vanity i vanity_inv then inv_code i
                                              else ''Vanity URL'') pred_invs)),
                       (''Invite channel:'',
                        join_str nl (map (\<lambda>i. case inv_channel_mention i of
                                                 Some m \<Rightarrow> m | None \<Rightarrow> ''`None`'') pred_invs))]\<rparr>
            in case pred_invs of
                 [invt] \<Rightarrow>
                   e1\<lparr>embed_fields := embed_fields e1 @
                        (if is_vanity invt vanity_inv then [(''Vanity:'', ''True'')]
                         else [(''Invite created by:'', inviter_text (inv_inviter invt)),
                               (''Invite created at:'', string_fmt_dt (inv_created_at invt))]) @
                        [(''Invite expires:'', string_fmt_dt (inv_expires_at invt)),
                         (''Invite uses:'', str_int (inv_uses invt))]\<rparr>
               | _ \<Rightarrow> e1\<lparr>description := description e1 @ more_than_one_note\<rparr>)
         else e0\<lparr>description := description e0 @ unresolved_note\<rparr>)"

text \<open>
  Modelled from the spec: the storage helpers of \<^verbatim>\<open>InviteTracker\<close>
  (\<^verbatim>\<open>invites/core/models.py\<close>, not part of the sources): \<^verbatim>\<open>save_user_data\<close>,
  \<^verbatim>\<open>get_user_data\<close>, \<^verbatim>\<open>remove_user_data\<close> and \<^verbatim>\<open>update_user_data\<close>. The spec
  describes the user record as a per-user mapping from guild id to the invite data used
  to join, created on join and retained across several guild memberships.
\<close>

definition to_invite_data :: "Invite \<Rightarrow> InviteData" where
  "to_invite_data invt =
     \<lparr>data_code = inv_code invt, data_channel_id = inv_channel_id invt,
      data_inviter_id = map_option snd (inv_inviter invt)\<rparr>"

definition save_user_data :: "State \<Rightarrow> Member \<Rightarrow> Invite \<Rightarrow> State" where
  "save_user_data st member invt =
     (let key = str_int (member_guild member);
          entry = \<lparr>entry_invite = Some (to_invite_data invt)\<rparr>;
          user_data = (case users st (member_id member) of
                         None \<Rightarrow> \<lparr>guilds = [(key, entry)]\<rparr>
                       | Some ud \<Rightarrow> ud\<lparr>guilds := AList.update key entry (guilds ud)\<rparr>)
      in st\<lparr>users := (users st)(member_id member \<mapsto> user_data)\<rparr>)"

definition get_user_data :: "State \<Rightarrow> Member \<Rightarrow> UserData option" where
  "get_user_data st member = users st (member_id member)"

definition remove_user_data :: "State \<Rightarrow> int \<Rightarrow> State" where
  "remove_user_data st user_id = st\<lparr>users := (users st)(user_id := None)\<rparr>"

definition update_user_data :: "State \<Rightarrow> Member \<Rightarrow> UserData \<Rightarrow> State" where
  "update_user_data st member user_data = st\<lparr>users := (users st)(member_id member \<mapsto> user_data)\<rparr>"

text \<open>
  \<^verbatim>\<open>Invites.on_member_join\<close>. \<open>pred_invs\<close> is the list that
  \<^verbatim>\<open>await self.tracker.get_used_invite(member)\<close> returns and \<open>vanity_inv\<close> the entry
  \<^verbatim>\<open>self.tracker.vanity_invites.get(member.guild.id)\<close>. The first component of the
  result is the exception that leaves the handler, if any; the record is saved only after
  the awaited \<open>send_log_embed\<close> has returned.
\<close>

definition on_member_join ::
  "Framework \<Rightarrow> State \<Rightarrow> Member \<Rightarrow> Invite list \<Rightarrow> Invite option \<Rightarrow> error option \<times> State" where
  "on_member_join fw st member pred_invs vanity_inv =
     (if is_bot member then (None, st)
      else (case guild_config st (member_guild member) of (config, st1) \<Rightarrow>
        (if \<not> enable config then (None, st1)
         else (case py_int fw (channel config) of
           None \<Rightarrow> (Some ValueError, st1)
         | Some cid \<Rightarrow>
             (case get_channel fw cid of
                None \<Rightarrow> (None, st1)
              | Some ch \<Rightarrow>
                  (case send_log_embed fw st1 ch (join_embed member pred_invs vanity_inv) of
                     (Some e, st2) \<Rightarrow> (Some e, st2)
                   | (None, st2) \<Rightarrow>
                       (if length pred_invs = 1 \<and> store_data config
                        then (None, save_user_data st2 member (hd pred_invs))
                        else (None, st2))))))))"

subsection \<open>Member leave\<close>

text \<open>The embed that \<^verbatim>\<open>Invites.on_member_remove\<close> builds before it sends it.\<close>

definition leave_embed :: "Framework \<Rightarrow> Member \<Rightarrow> InviteData option \<Rightarrow> Embed" where
  "leave_embed fw member invdata =
     (let e0 = \<lparr>title = member_name member @ '' left.'',
                description = member_mention member @ '' just left the server.'' @ nl,
                footer = ''User ID: '' @ str_int (member_id member),
                embed_fields = [(''Joined at:'', string_fmt_dt (Some (joined_at member))),
                                (''Time on server:'', time_on_server member)]\<rparr>;
          e1 = (case nick member of
                  None \<Rightarrow> e0
                | Some n \<Rightarrow> if n = [] then e0
                            else e0\<lparr>description := description e0 @ nl @ ''**Nickname:**'' @ nl @ n @ nl\<rparr>);
          role_list = map fst (filter (\<lambda>r. \<not> snd r) (rev (roles member)));
          e2 = (if role_list \<noteq> []
                then e1\<lparr>description := description e1 @ nl @ ''**Roles:**'' @ nl
                                          @ join_str '' '' role_list @ nl\<rparr>
                else e1)
      in case invdata of
           None \<Rightarrow> e2
         | Some d \<Rightarrow>
             (let invt = from_data fw d;
                  inv_channel = (case pi_channel invt of
                                   Some m \<Rightarrow> m
                                 | None \<Rightarrow>
                                     (case pi_channel_id invt of
                                        None \<Rightarrow> ''`None`''
                                      | Some c \<Rightarrow> if c \<noteq> 0 then ''<#'' @ str_int c @ ''>'' else ''`None`''));
                  inviter = (case pi_inviter invt of
                               Some (name, uid) \<Rightarrow> ''Name: '' @ name @ nl @ ''ID: `'' @ str_int uid @ ''`''
                             | None \<Rightarrow>
                                 (case pi_inviter_id invt of
                                    None \<Rightarrow> ''`None`''
                                  | Some u \<Rightarrow> if u \<noteq> 0 then ''(`'' @ str_int u @ ''`)'' else ''`None`''))
              in e2\<lparr>embed_fields := embed_fields e2 @
                      [(''Invite code:'', data_code d),
                       (''Invite channel:'', inv_channel),
                       (''Invite created by:'', inviter)]\<rparr>))"

text \<open>
  The part of \<^verbatim>\<open>Invites.on_member_remove\<close> that works on the stored record: the
  \<^verbatim>\<open>pop\<close> of the guild's entry, then either \<^verbatim>\<open>remove_user_data\<close> or
  \<^verbatim>\<open>update_user_data\<close>. The result is \<open>invdata\<close> and the new state.
\<close>

definition pop_guild_entry ::
  "State \<Rightarrow> GuildConfigData \<Rightarrow> Member \<Rightarrow> InviteData option \<times> State" where
  "pop_guild_entry st config member =
     (let key = str_int (member_guild member) in
      case get_user_data st member of
        None \<Rightarrow> (None, st)
      | Some user_data \<Rightarrow>
          (case map_of (guilds user_data) key of
             None \<Rightarrow> (None, st)
           | Some entry \<Rightarrow>
               (let user_data' = user_data\<lparr>guilds := AList.delete key (guilds user_data)\<rparr>
                in (entry_invite entry,
                    if guilds user_data' = [] \<or> \<not> store_data config
                    then remove_user_data st (member_id member)
                    else update_user_data st member user_data'))))"

definition on_member_remove ::
  "Framework \<Rightarrow> State \<Rightarrow> Member \<Rightarrow> error option \<times> State" where
  "on_member_remove fw st member =
     (if is_bot member then (None, st)
      else (case guild_config st (member_guild member) of (config, st1) \<Rightarrow>
        (if \<not> enable config then (None, st1)
         else (case pop_guild_entry st1 config member of (invdata, st2) \<Rightarrow>
           (case py_int fw (channel config) of
              None \<Rightarrow> (Some ValueError, st2)
            | Some cid \<Rightarrow>
                (case get_channel fw cid of
                   None \<Rightarrow> (None, st2)
                 | Some ch \<Rightarrow> send_log_embed fw st2 ch (leave_embed fw member invdata)))))))"

subsection \<open>Invite-usage inference\<close>




section \<open>Support utility cog: configuration documents\<close>

text \<open>
  \<^verbatim>\<open>src/supportutils/core/config.py\<close>. Configuration documents are free-form nested
  dictionaries. A dictionary is an association list in insertion order; a well-formed one
  has each key once.
\<close>

datatype json =
    JNone
  | JBool bool
  | JInt int
  | JStr string
  | JList "json list"
  | JDict "(string \<times> json) list"

fun is_dict :: "json \<Rightarrow> bool" where
  "is_dict (JDict d) = True"
| "is_dict _ = False"

text \<open>\<^verbatim>\<open>key in data\<close>: keys of a dictionary, substrings of a string, elements of a list.\<close>

fun py_contains :: "json \<Rightarrow> string \<Rightarrow> error + bool" where
  "py_contains (JDict d) key = Inr (map_of d key \<noteq> None)"
| "py_contains (JStr s) key = Inr (sublist key s)"
| "py_contains (JList l) key = Inr (JStr key \<in> set l)"
| "py_contains _ key = Inl TypeError"

text \<open>\<^verbatim>\<open>data[key] = value\<close> with a string key: a new key goes to the end of a dictionary.\<close>

fun py_setitem :: "json \<Rightarrow> string \<Rightarrow> json \<Rightarrow> error + json" where
  "py_setitem (JDict d) key v = Inr (JDict (AList.update key v d))"
| "py_setitem _ key v = Inl TypeError"

text \<open>\<^verbatim>\<open>data[key]\<close> with a string key.\<close>

fun py_getitem :: "json \<Rightarrow> string \<Rightarrow> error + json" where
  "py_getitem (JDict d) key = (case map_of d key of None \<Rightarrow> Inl KeyError | Some v \<Rightarrow> Inr v)"
| "py_getitem _ key = Inl TypeError"

text \<open>\<^verbatim>\<open>data.get(key)\<close>; only dictionaries have the method.\<close>

fun py_get :: "json \<Rightarrow> string \<Rightarrow> error + json" where
  "py_get (JDict d) key = Inr (case map_of d key of None \<Rightarrow> JNone | Some v \<Rightarrow> v)"
| "py_get _ key = Inl AttributeError"

text \<open>
  \<^verbatim>\<open>Config.deepcopy\<close>: values of type \<open>json\<close> have no identity, a copy is the value.
\<close>

definition deepcopy :: "json \<Rightarrow> json" where
  "deepcopy v = v"

text \<open>
  The nested dictionary \<^verbatim>\<open>data[key]\<close> is edited in place by the recursive call; in
  the model the edited value is put back under its key.
\<close>

fun put_back :: "json \<Rightarrow> string \<Rightarrow> json \<Rightarrow> json" where
  "put_back (JDict d) key v = JDict (AList.update key v d)"
| "put_back data key v = data"

text \<open>
  \<^verbatim>\<open>SupportUtilityConfig.recursively_resolve_keys\<close>. The first argument is
  \<^verbatim>\<open>base.items()\<close>. The result is the edited \<open>data\<close>, or the exception that the
  Python raises when \<open>data\<close> is not a dictionary.
\<close>

fun recursively_resolve_keys :: "(string \<times> json) list \<Rightarrow> json \<Rightarrow> error + json" where
  "recursively_resolve_keys [] data = Inr data"
| "recursively_resolve_keys ((key, val) # base) data =
     (case py_contains data key of
        Inl e \<Rightarrow> Inl e
      | Inr present \<Rightarrow>
          (if \<not> present then
             (case py_setitem data key (deepcopy val) of
                Inl e \<Rightarrow> Inl e
              | Inr data' \<Rightarrow> recursively_resolve_keys base data')
           else
             (case val of
                JDict inner \<Rightarrow>
                  (case py_getitem data key of
                     Inl e \<Rightarrow> Inl e
                   | Inr sub \<Rightarrow>
                       (case recursively_resolve_keys inner sub of
                          Inl e \<Rightarrow> Inl e
                        | Inr sub' \<Rightarrow> recursively_resolve_keys base (put_back data key sub')))
              | _ \<Rightarrow> recursively_resolve_keys base data)))"

text \<open>\<^verbatim>\<open>_default_config\<close>.\<close>

definition default_document :: "(string \<times> json) list" where
  "default_document =
     [(''contact'', JDict
        [(''message'', JNone),
         (''channel'', JNone),
         (''embed'', JDict
            [(''title'', JStr ''Contact Staff''),
             (''description'', JStr ''Use button or dropdown below to contact our staff.''),
             (''footer'', JNone)]),
         (''button'', JDict []),
         (''select'', JDict
            [(''options'', JList []),
             (''placeholder'', JStr ''Choose a category'')]),
         (''override_dmdisabled'', JBool False),
         (''confirmation'', JDict
            [(''enable'', JBool True),
             (''embed'', JDict
                [(''title'', JStr ''Confirm thread creation''),
                 (''description'', JStr ''Use the button below to confirm thread creation which will directly contact the moderators.''),
                 (''footer'', JNone)])])]),
      (''feedback'', JDict
        [(''enable'', JBool False),
         (''channel'', JNone),
         (''embed'', JDict
            [(''title'', JStr ''Feedback''),
             (''description'', JStr ''Press the button below to give a feedback.''),
             (''footer'', JNone)]),
         (''button'', JDict []),
         (''response'', JStr ''Thanks for your time. Your feedback has been submitted to our staff team.''),
         (''active_sessions'', JList []),
         (''rating'', JDict
            [(''enable'', JBool False),
             (''placeholder'', JStr ''Choose a rating'')])])]"

text \<open>
  \<^verbatim>\<open>SupportUtilityConfig.fetch\<close>: after the wrapper's own \<^verbatim>\<open>fetch\<close> has put the
  stored document into the cache, the defaults are resolved into the cache.
\<close>

definition fetch :: "(string \<times> json) list \<Rightarrow> error + json" where
  "fetch stored = recursively_resolve_keys default_document (JDict stored)"

text \<open>The value found by following a path of keys through nested dictionaries.\<close>

fun lookup_path :: "json \<Rightarrow> string list \<Rightarrow> json option" where
  "lookup_path v [] = Some v"
| "lookup_path (JDict d) (k # ks) = (case map_of d k of None \<Rightarrow> None | Some v \<Rightarrow> lookup_path v ks)"
| "lookup_path _ (k # ks) = None"

text \<open>
  A stored document is partial with respect to a default document when every stored value
  that sits under a key whose default is a dictionary is itself a dictionary, and so on
  inside.
\<close>

fun partial_of :: "(string \<times> json) list \<Rightarrow> (string \<times> json) list \<Rightarrow> bool" where
  "partial_of [] d = True"
| "partial_of ((key, val) # base) d =
     ((case val of
         JDict inner \<Rightarrow>
           (case map_of d key of
              None \<Rightarrow> True
            | Some (JDict sub) \<Rightarrow> partial_of inner sub
            | Some _ \<Rightarrow> False)
       | _ \<Rightarrow> True)
      \<and> partial_of base d)"

text \<open>Every dictionary of a document has each key once.\<close>

fun distinct_keys :: "(string \<times> json) list \<Rightarrow> bool" where
  "distinct_keys [] = True"
| "distinct_keys ((key, val) # base) =
     (key \<notin> fst ` set base
      \<and> (case val of JDict inner \<Rightarrow> distinct_keys inner | _ \<Rightarrow> True)
      \<and> distinct_keys base)"

text \<open>
  How the top-level entries of the result \<open>d'\<close> relate to those of the defaults
  \<open>base\<close> and of the stored dictionary \<open>d\<close>: keys outside the defaults are as stored,
  missing keys hold the default, stored values under a default that is no dictionary are
  as stored, and stored dictionaries under a default dictionary are resolved in turn.
\<close>

definition resolved ::
  "(string \<times> json) list \<Rightarrow> (string \<times> json) list \<Rightarrow> (string \<times> json) list \<Rightarrow> bool" where
  "resolved base d d' \<longleftrightarrow>
     (\<forall>k. map_of base k = None \<longrightarrow> map_of d' k = map_of d k)
   \<and> (\<forall>k v. map_of base k = Some v \<and> map_of d k = None \<longrightarrow> map_of d' k = Some v)
   \<and> (\<forall>k v x. map_of base k = Some v \<and> map_of d k = Some x \<and> \<not> is_dict v \<longrightarrow> map_of d' k = Some x)
   \<and> (\<forall>k inner x. map_of base k = Some (JDict inner) \<and> map_of d k = Some x \<longrightarrow>
         (\<exists>s s'. x = JDict s \<and> partial_of inner s \<and> distinct_keys inner
            \<and> recursively_resolve_keys inner (JDict s) = Inr (JDict s')
            \<and> map_of d' k = Some (JDict s')))"


section \<open>Support utility cog: the contact panel\<close>

text \<open>\<^verbatim>\<open>src/supportutils/core/views.py\<close>, class \<^verbatim>\<open>ContactView\<close>.\<close>

subsection \<open>Interaction check\<close>

text \<open>\<^verbatim>\<open>core.models.DMDisabled\<close> of the host bot.\<close>

datatype DMDisabled = NONE | NEW_THREADS | ALL_THREADS

record Thread =
  thread_channel :: "string option"

text \<open>
  What the check asks the bot about the interacting user: membership in the main guild,
  an open thread, the block list, and the two configuration values it reads.
\<close>

record ModmailBot =
  guild_member :: "int \<Rightarrow> bool"
  threads_find :: "int \<Rightarrow> Thread option"
  is_blocked :: "int \<Rightarrow> bool"
  dm_disabled :: DMDisabled
  disabled_new_thread_response :: string
  bot_user_name :: string

text \<open>
  What is done with \<^verbatim>\<open>interaction.response\<close>: \<open>SendMessage text ephemeral\<close> is an
  embed with that description.
\<close>

datatype Response = Defer | SendMessage string bool

definition interaction_check :: "ModmailBot \<Rightarrow> int \<Rightarrow> bool \<times> Response list" where
  "interaction_check the_bot user =
     (if \<not> guild_member the_bot user then (False, [Defer])
      else
        (case threads_find the_bot user of
           Some exists \<Rightarrow>
             (False,
              [SendMessage
                 (''A thread for you already exists''
                    @ (case thread_channel exists of Some m \<Rightarrow> '' in '' @ m | None \<Rightarrow> [])
                    @ ''.'') True])
         | None \<Rightarrow>
             (if is_blocked the_bot user then
                (False,
                 [SendMessage (''You are currently blocked from contacting '' @ bot_user_name the_bot @ ''.'') True])
              else if dm_disabled the_bot = NEW_THREADS \<or> dm_disabled the_bot = ALL_THREADS then
                (False, [SendMessage (disabled_new_thread_response the_bot) True])
              else (True, []))))"

subsection \<open>Construction\<close>

text \<open>
  Views are objects; the manager holds a reference to the attached one. A reference is a
  number, and \<^verbatim>\<open>MISSING\<close> is \<open>None\<close>. The button style is a member of the library's
  \<^verbatim>\<open>ButtonStyle\<close> enumeration: its type is the parameter \<open>'s\<close>, the lookup by name
  \<^verbatim>\<open>ButtonStyle[...]\<close> and the member \<^verbatim>\<open>ButtonStyle.grey\<close> are arguments.
\<close>

record ContactManager =
  view :: "nat option"
  manager_config :: json

record 's Button =
  emoji :: json
  label :: json
  style :: 's
  custom_id :: string

record 's ContactView =
  view_ref :: nat
  view_message :: "nat option"
  select_options :: json
  children :: "'s Button list"

text \<open>
  \<^verbatim>\<open>ContactView.__init__\<close>, for the new object \<open>self\<close> and the message it is
  bound to (\<open>None\<close> for \<^verbatim>\<open>MISSING\<close>). The result is the exception or the constructed
  view, and the manager as the constructor leaves it.
\<close>

definition ContactView_init ::
  "(string \<Rightarrow> 's option) \<Rightarrow> 's \<Rightarrow> ContactManager \<Rightarrow> nat \<Rightarrow> nat option
     \<Rightarrow> (error + 's ContactView) \<times> ContactManager" where
  "ContactView_init style_by_name grey manager self message =
     (if view manager \<noteq> None then (Inl RuntimeError, manager)
      else
        (let manager' = manager\<lparr>view := Some self\<rparr> in
         case py_getitem (manager_config manager') ''select'' of
           Inl e \<Rightarrow> (Inl e, manager')
         | Inr select \<Rightarrow>
             (case py_getitem select ''options'' of
                Inl e \<Rightarrow> (Inl e, manager')
              | Inr options \<Rightarrow>
                  (case py_getitem (manager_config manager') ''button'' of
                     Inl e \<Rightarrow> (Inl e, manager')
                   | Inr button_config \<Rightarrow>
                       (case py_get button_config ''emoji'' of
                          Inl e \<Rightarrow> (Inl e, manager')
                        | Inr em \<Rightarrow>
                            (case py_get button_config ''label'' of
                               Inl e \<Rightarrow> (Inl e, manager')
                             | Inr lb \<Rightarrow>
                                 (case py_get button_config ''style'' of
                                    Inl e \<Rightarrow> (Inl e, manager')
                                  | Inr st \<Rightarrow>
                                      (let lb' = (if em = JNone \<and> lb = JNone then JStr ''Contact'' else lb);
                                           sty = (case st of
                                                    JStr name \<Rightarrow>
                                                      (case style_by_name name of
                                                         Some x \<Rightarrow> x
                                                       | None \<Rightarrow> grey)
                                                  | _ \<Rightarrow> grey);
                                           payload = \<lparr>emoji = em, label = lb', style = sty,
                                                      custom_id = ''contact_button''\<rparr>
                                       in (Inr \<lparr>view_ref = self, view_message = message,
                                                select_options = options,
                                                children = [payload]\<rparr>, manager')))))))))"

section \<open>Example values\<close>

text \<open>Concrete inputs at which the theorems below are instantiated.\<close>

definition example_config :: GuildConfigData where
  "example_config = \<lparr>channel = ''7'', webhook = None, enable = True, store_data = True\<rparr>"

definition example_state :: State where
  "example_state =
     \<lparr>cache = [''1'' \<mapsto> example_config], db = Map.empty, users = Map.empty, sent = []\<rparr>"

definition example_webhook :: Webhook where
  "example_webhook = \<lparr>wh_url = ''https://discord.com/api/webhooks/5/tok'', wh_token = Some ''tok''\<rparr>"

definition example_channel :: TextChannel where
  "example_channel =
     \<lparr>channel_id = 7, mention = ''<#7>'', channel_guild = 1, bot_is_member = True,
      manage_webhooks = True, webhooks = Inr [], create_webhook = Inl Forbidden,
      channel_send = None\<rparr>"

definition example_framework :: Framework where
  "example_framework =
     \<lparr>py_int = (\<lambda>s. if s = ''7'' then Some 7 else None),
      get_channel = (\<lambda>c. if c = 7 then Some example_channel else None),
      from_data = (\<lambda>d. \<lparr>pi_channel = None, pi_channel_id = data_channel_id d,
                           pi_inviter = None, pi_inviter_id = data_inviter_id d\<rparr>),
      avatar_read = None,
      valid_webhook_url = (\<lambda>u. u = ''https://discord.com/api/webhooks/5/tok''),
      webhook_send = (\<lambda>u. None)\<rparr>"

definition example_forbidden_channel :: TextChannel where
  "example_forbidden_channel =
     example_channel\<lparr>manage_webhooks := False, channel_send := Some Forbidden\<rparr>"

definition example_forbidden_framework :: Framework where
  "example_forbidden_framework =
     example_framework\<lparr>get_channel := (\<lambda>c. if c = 7 then Some example_forbidden_channel else None)\<rparr>"

definition example_embed :: Embed where
  "example_embed = \<lparr>title = ''Invite created'', description = ''https://discord.gg/abc'',
                     footer = [], embed_fields = []\<rparr>"

definition example_member :: Member where
  "example_member =
     \<lparr>is_bot = False, member_id = 10, member_name = ''ann'', member_mention = ''<@10>'',
      member_guild = 1, join_position = 12, account_age = ''2 years ago'',
      joined_at = 1700000000, time_on_server = ''3 days'', nick = None,
      roles = [(''@everyone'', True), (''<@&3>'', False)]\<rparr>"

definition example_invite :: Invite where
  "example_invite =
     \<lparr>inv_code = ''abc'', inv_uses = 4, inv_channel_id = Some 7, inv_channel_mention = Some ''<#7>'',
      inv_inviter = Some (''bob'', 11), inv_created_at = Some 1600000000, inv_expires_at = None\<rparr>"

definition example_invite2 :: Invite where
  "example_invite2 =
     \<lparr>inv_code = ''xyz'', inv_uses = 0, inv_channel_id = Some 7, inv_channel_mention = Some ''<#7>'',
      inv_inviter = None, inv_created_at = Some 1650000000, inv_expires_at = None\<rparr>"

definition example_entry :: GuildEntry where
  "example_entry =
     \<lparr>entry_invite = Some \<lparr>data_code = ''abc'', data_channel_id = Some 7, data_inviter_id = Some 11\<rparr>\<rparr>"

definition example_stored :: "(string \<times> json) list" where
  "example_stored =
     [(''contact'', JDict [(''channel'', JStr ''123''),
                           (''embed'', JDict [(''title'', JStr ''Help'')])])]"

definition example_bot :: ModmailBot where
  "example_bot =
     \<lparr>guild_member = (\<lambda>u. u \<noteq> 9), threads_find = (\<lambda>u. if u = 2 then Some \<lparr>thread_channel = Some ''<#50>''\<rparr> else None),
      is_blocked = (\<lambda>u. u = 3), dm_disabled = NONE,
      disabled_new_thread_response = ''We are not accepting new threads.'',
      bot_user_name = ''Modmail''\<rparr>"

definition example_manager :: ContactManager where
  "example_manager =
     \<lparr>view = None,
      manager_config = JDict [(''select'', JDict [(''options'', JList [])]), (''button'', JDict [])]\<rparr>"

section \<open>Properties\<close>

lemma str_int_0: "str_int 0 = ''0''"
  by (simp add: str_int_def str_nat.simps)

lemma str_int_1: "str_int 1 = ''1''"
  by (simp add: str_int_def str_nat.simps)

lemma default_config_fields:
  "channel default_config = ''0''" "webhook default_config = None"
  "\<not> enable default_config" "store_data default_config"
  by (simp_all add: default_config_def str_int_0)

lemmas config_defs =
  guild_config_def set_guild_config_def config_update_def Let_def

lemmas example_defs =
  example_state_def example_config_def example_channel_def example_webhook_def example_embed_def

subsection \<open>What the handlers leave alone\<close>

lemma guild_config_users [simp]: "users (snd (guild_config st g)) = users st"
  by (simp add: guild_config_def Let_def split: option.splits)

lemma guild_config_sent [simp]: "sent (snd (guild_config st g)) = sent st"
  by (simp add: guild_config_def Let_def split: option.splits)

lemma send_func_users [simp]: "users (snd (send_func fw st ch wh e)) = users st"
  by (cases wh; cases "channel_send ch"; cases "webhook_send fw (the wh)") (auto simp add: send_func_def)

lemma send_func_returns:
  "fst (send_func fw st ch wh e) = None
     \<Longrightarrow> map sent_embed (sent (snd (send_func fw st ch wh e))) = map sent_embed (sent st) @ [e]"
  by (cases wh; cases "channel_send ch"; cases "webhook_send fw (the wh)") (auto simp add: send_func_def)

lemma send_func_raises:
  "fst (send_func fw st ch wh e) \<noteq> None \<Longrightarrow> snd (send_func fw st ch wh e) = st"
  by (cases wh; cases "channel_send ch"; cases "webhook_send fw (the wh)") (auto simp add: send_func_def)

lemma send_log_embed_users [simp]: "users (snd (send_log_embed fw st ch e)) = users st"
proof -
  obtain config st1 where gc: "guild_config st (channel_guild ch) = (config, st1)"
    by (cases "guild_config st (channel_guild ch)")
  have "users st1 = users st"
    using guild_config_users [of st "channel_guild ch"] gc by simp
  then show ?thesis
    using gc by (simp add: send_log_embed_def config_update_def set_guild_config_def
        split: option.splits sum.splits)
qed

lemma send_log_embed_returns:
  assumes "fst (send_log_embed fw st ch e) = None"
  shows "map sent_embed (sent (snd (send_log_embed fw st ch e))) = map sent_embed (sent st) @ [e]"
proof -
  obtain config st1 where gc: "guild_config st (channel_guild ch) = (config, st1)"
    by (cases "guild_config st (channel_guild ch)")
  have s1: "sent st1 = sent st"
    using guild_config_sent [of st "channel_guild ch"] gc by simp
  show ?thesis
    using assms gc s1
    by (auto simp add: send_log_embed_def send_func_returns config_update_def set_guild_config_def
        split: option.splits sum.splits if_splits)
qed

lemma send_log_embed_raises:
  assumes "fst (send_log_embed fw st ch e) \<noteq> None"
  shows "sent (snd (send_log_embed fw st ch e)) = sent st"
proof -
  obtain config st1 where gc: "guild_config st (channel_guild ch) = (config, st1)"
    by (cases "guild_config st (channel_guild ch)")
  have s1: "sent st1 = sent st"
    using guild_config_sent [of st "channel_guild ch"] gc by simp
  show ?thesis
    using assms gc s1
    by (auto simp add: send_log_embed_def send_func_raises config_update_def set_guild_config_def
        split: option.splits sum.splits if_splits)
qed

subsection \<open>Configuration\<close>

text \<open>
  C5. A guild whose key has no document in the cache gets exactly the declared defaults
  (channel \<^verbatim>\<open>"0"\<close>, no webhook, logging off, data store on); the defaults are put in
  the cache under the guild's key, nothing else in the cache or the database changes, and
  a second access returns the same document without changing the state again.
\<close>

theorem guild_config_defaults:
  assumes "cache st (str_int guild_id) = None"
  shows "fst (guild_config st guild_id)
           = \<lparr>channel = ''0'', webhook = None, enable = False, store_data = True\<rparr>
       \<and> cache (snd (guild_config st guild_id))
           = (cache st)(str_int guild_id \<mapsto> fst (guild_config st guild_id))
       \<and> db (snd (guild_config st guild_id)) = db st
       \<and> guild_config (snd (guild_config st guild_id)) guild_id
           = guild_config st guild_id"
  using assms by (simp add: guild_config_def default_config_def str_int_0)

theorem guild_config_defaults_witness:
  "cache \<lparr>cache = Map.empty, db = Map.empty, users = Map.empty, sent = []\<rparr> (str_int 42) = None
   \<and> fst (guild_config \<lparr>cache = Map.empty, db = Map.empty, users = Map.empty, sent = []\<rparr> 42)
       = \<lparr>channel = ''0'', webhook = None, enable = False, store_data = True\<rparr>
   \<and> cache (snd (guild_config \<lparr>cache = Map.empty, db = Map.empty, users = Map.empty, sent = []\<rparr> 42))
        (str_int 42)
       = Some \<lparr>channel = ''0'', webhook = None, enable = False, store_data = True\<rparr>"
  using guild_config_defaults
    [of "\<lparr>cache = Map.empty, db = Map.empty, users = Map.empty, sent = []\<rparr>" 42]
  by simp

text \<open>
  C4. The claim is that \<^verbatim>\<open>invites store enable <mode>\<close> sets the store-data flag and
  leaves \<open>enable\<close> alone. The command writes the key \<^verbatim>\<open>"enable"\<close> instead: for a guild
  with logging and data store both on, \<^verbatim>\<open>invites store enable False\<close> turns logging
  off and leaves the data store on.
\<close>

theorem inv_store_enable_writes_enable:
  "cache (snd (inv_store_enable example_state 1 (Some False))) ''1''
     = Some \<lparr>channel = ''7'', webhook = None, enable = False, store_data = True\<rparr>"
  by (simp add: inv_store_enable_def config_defs example_defs str_int_1)

lemma inv_store_enable_general:
  "fst (guild_config (snd (inv_store_enable st g (Some m))) g)
     = (fst (guild_config st g))\<lparr>enable := m\<rparr>"
  by (simp add: inv_store_enable_def config_defs split: option.splits)

text \<open>
  C10. \<^verbatim>\<open>invites config channel <channel>\<close> stores the id of the channel and resets
  the webhook URL to \<open>None\<close>; \<open>enable\<close> and \<open>store_data\<close> keep their values, and the
  cache is persisted. The next log embed for a channel of the guild therefore starts with
  \<open>get_or_create_webhook\<close>: what it raises leaves the send, a webhook it returns is
  stored and used, and without one the embed goes to the channel; when that send raises
  nothing, exactly this one embed has been added to what was sent. Without an argument
  the command does what reading the guild's configuration does and nothing more: a guild
  that has a document keeps the whole state, and in any case the configuration and the
  database are as before.
\<close>

theorem invites_config_channel_frame:
  "fst (guild_config (snd (invites_config_channel fw st g (Some ch))) g)
     = (fst (guild_config st g))\<lparr>channel := str_int (channel_id ch), webhook := None\<rparr>
   \<and> webhook (fst (guild_config (snd (invites_config_channel fw st g (Some ch))) g)) = None
   \<and> enable (fst (guild_config (snd (invites_config_channel fw st g (Some ch))) g))
       = enable (fst (guild_config st g))
   \<and> store_data (fst (guild_config (snd (invites_config_channel fw st g (Some ch))) g))
       = store_data (fst (guild_config st g))
   \<and> db (snd (invites_config_channel fw st g (Some ch)))
       = cache (snd (invites_config_channel fw st g (Some ch)))
   \<and> send_log_embed fw2 (snd (invites_config_channel fw st g (Some ch))) (c\<lparr>channel_guild := g\<rparr>) e
       = (case get_or_create_webhook fw2 (c\<lparr>channel_guild := g\<rparr>) of
            Inl err \<Rightarrow> (Some err, snd (invites_config_channel fw st g (Some ch)))
          | Inr None \<Rightarrow>
              send_func fw2 (snd (invites_config_channel fw st g (Some ch)))
                (c\<lparr>channel_guild := g\<rparr>) None e
          | Inr (Some wh) \<Rightarrow>
              send_func fw2
                (config_update
                   (set_guild_config (snd (invites_config_channel fw st g (Some ch))) g
                      ((fst (guild_config st g))
                         \<lparr>channel := str_int (channel_id ch), webhook := Some (wh_url wh)\<rparr>)))
                (c\<lparr>channel_guild := g\<rparr>) (Some (wh_url wh)) e)
   \<and> (fst (send_log_embed fw2 (snd (invites_config_channel fw st g (Some ch)))
              (c\<lparr>channel_guild := g\<rparr>) e) = None
       \<longrightarrow> sent (snd (send_log_embed fw2 (snd (invites_config_channel fw st g (Some ch)))
                        (c\<lparr>channel_guild := g\<rparr>) e))
            = sent st
               @ [case get_or_create_webhook fw2 (c\<lparr>channel_guild := g\<rparr>) of
                    Inr (Some wh) \<Rightarrow> ViaWebhook (wh_url wh) e
                  | _ \<Rightarrow> ViaChannel (channel_id c) e])
   \<and> snd (invites_config_channel fw st g None) = snd (guild_config st g)
   \<and> (cache st (str_int g) \<noteq> None \<longrightarrow> snd (invites_config_channel fw st g None) = st)
   \<and> fst (guild_config (snd (invites_config_channel fw st g None)) g) = fst (guild_config st g)
   \<and> db (snd (invites_config_channel fw st g None)) = db st"
proof -
  let ?st' = "snd (invites_config_channel fw st g (Some ch))"
  let ?c = "c\<lparr>channel_guild := g\<rparr>"
  have cfg: "guild_config ?st' g
      = ((fst (guild_config st g))\<lparr>channel := str_int (channel_id ch), webhook := None\<rparr>, ?st')"
    by (simp add: invites_config_channel_def config_defs split: option.splits)
  have snt: "sent ?st' = sent st"
    by (simp add: invites_config_channel_def config_defs split: option.splits)
  have route: "send_log_embed fw2 ?st' ?c e
       = (case get_or_create_webhook fw2 ?c of
            Inl err \<Rightarrow> (Some err, ?st')
          | Inr None \<Rightarrow> send_func fw2 ?st' ?c None e
          | Inr (Some wh) \<Rightarrow>
              send_func fw2
                (config_update
                   (set_guild_config ?st' g
                      ((fst (guild_config st g))
                         \<lparr>channel := str_int (channel_id ch), webhook := Some (wh_url wh)\<rparr>)))
                ?c (Some (wh_url wh)) e)"
    using cfg by (simp add: send_log_embed_def split: sum.splits option.splits)
  have next_sent: "sent (snd (send_log_embed fw2 ?st' ?c e))
            = sent st
               @ [case get_or_create_webhook fw2 ?c of
                    Inr (Some wh) \<Rightarrow> ViaWebhook (wh_url wh) e
                  | _ \<Rightarrow> ViaChannel (channel_id c) e]"
    if "fst (send_log_embed fw2 ?st' ?c e) = None"
    using that snt unfolding route
    by (auto simp add: send_func_def config_update_def set_guild_config_def
        split: sum.splits option.splits)
  have rest: "fst (guild_config ?st' g)
       = (fst (guild_config st g))\<lparr>channel := str_int (channel_id ch), webhook := None\<rparr>
   \<and> webhook (fst (guild_config ?st' g)) = None
   \<and> enable (fst (guild_config ?st' g)) = enable (fst (guild_config st g))
   \<and> store_data (fst (guild_config ?st' g)) = store_data (fst (guild_config st g))
   \<and> db ?st' = cache ?st'
   \<and> snd (invites_config_channel fw st g None) = snd (guild_config st g)
   \<and> (cache st (str_int g) \<noteq> None \<longrightarrow> snd (invites_config_channel fw st g None) = st)
   \<and> fst (guild_config (snd (invites_config_channel fw st g None)) g) = fst (guild_config st g)
   \<and> db (snd (invites_config_channel fw st g None)) = db st"
    by (auto simp add: invites_config_channel_def config_defs split: option.splits)
  show ?thesis using rest route next_sent by blast
qed

theorem invites_config_channel_frame_witness:
  "fst (guild_config
          (snd (invites_config_channel example_framework
                  (example_state\<lparr>cache := [''1'' \<mapsto> example_config\<lparr>webhook := Some ''u''\<rparr>]\<rparr>)
                  1 (Some (example_channel\<lparr>channel_id := 8\<rparr>)))) 1)
     = \<lparr>channel = ''8'', webhook = None, enable = True, store_data = True\<rparr>
   \<and> send_log_embed example_framework
        (snd (invites_config_channel example_framework
                (example_state\<lparr>cache := [''1'' \<mapsto> example_config\<lparr>webhook := Some ''u''\<rparr>]\<rparr>)
                1 (Some (example_channel\<lparr>channel_id := 8\<rparr>))))
        (example_channel\<lparr>channel_guild := 1\<rparr>) example_embed
       = (None,
          \<lparr>cache = [''1'' \<mapsto> \<lparr>channel = ''8'', webhook = None, enable = True, store_data = True\<rparr>],
           db = [''1'' \<mapsto> \<lparr>channel = ''8'', webhook = None, enable = True, store_data = True\<rparr>],
           users = Map.empty, sent = [ViaChannel 7 example_embed]\<rparr>)
   \<and> cache example_state (str_int 1) \<noteq> None
   \<and> snd (invites_config_channel example_framework example_state 1 None) = example_state"
  using invites_config_channel_frame
    [of example_framework
        "example_state\<lparr>cache := [''1'' \<mapsto> example_config\<lparr>webhook := Some ''u''\<rparr>]\<rparr>"
        1 "example_channel\<lparr>channel_id := 8\<rparr>" example_framework example_channel example_embed]
    invites_config_channel_frame
    [of example_framework example_state 1 "example_channel\<lparr>channel_id := 8\<rparr>"
        example_framework example_channel example_embed]
  by (simp add: get_or_create_webhook_def send_func_def invites_config_channel_def
      guild_config_def set_guild_config_def config_update_def Let_def example_defs
      example_framework_def str_int_1 str_int_def str_nat.simps)

subsection \<open>Log embeds and webhooks\<close>




lemma send_log_embed_stored_url:
  "webhook (fst (guild_config st (channel_guild ch))) = Some url
     \<Longrightarrow> send_log_embed fw st ch emb
           = (if valid_webhook_url fw url
              then send_func fw (snd (guild_config st (channel_guild ch))) ch (Some url) emb
              else (Some ValueError, snd (guild_config st (channel_guild ch))))"
  by (cases "guild_config st (channel_guild ch)") (simp add: send_log_embed_def)

subsection \<open>Contact panel\<close>

text \<open>
  C8. The interaction check of the contact panel returns \<open>True\<close> exactly when the user
  is a member of the main guild, has no open thread, is not blocked, and DMs are disabled
  neither for new threads nor for all threads; then it sends nothing. For a non-member it
  returns \<open>False\<close> and only defers the interaction. In every other failing case it returns
  \<open>False\<close> and sends one ephemeral message: that a thread already exists, that the user
  is blocked, or the configured text for disabled new threads, in this order of
  precedence.
\<close>

theorem contact_interaction_check:
  "(fst (interaction_check b u) \<longleftrightarrow>
      guild_member b u \<and> threads_find b u = None \<and> \<not> is_blocked b u
      \<and> dm_disabled b \<noteq> NEW_THREADS \<and> dm_disabled b \<noteq> ALL_THREADS)
   \<and> (fst (interaction_check b u) \<longrightarrow> snd (interaction_check b u) = [])
   \<and> (\<not> guild_member b u \<longrightarrow> interaction_check b u = (False, [Defer]))
   \<and> (guild_member b u \<and> \<not> fst (interaction_check b u)
        \<longrightarrow> (\<exists>text. interaction_check b u = (False, [SendMessage text True])))
   \<and> (guild_member b u \<and> threads_find b u = Some t
        \<longrightarrow> snd (interaction_check b u)
             = [SendMessage (''A thread for you already exists''
                  @ (case thread_channel t of Some m \<Rightarrow> '' in '' @ m | None \<Rightarrow> []) @ ''.'') True])
   \<and> (guild_member b u \<and> threads_find b u = None \<and> is_blocked b u
        \<longrightarrow> snd (interaction_check b u)
             = [SendMessage (''You are currently blocked from contacting '' @ bot_user_name b @ ''.'') True])
   \<and> (guild_member b u \<and> threads_find b u = None \<and> \<not> is_blocked b u
        \<and> (dm_disabled b = NEW_THREADS \<or> dm_disabled b = ALL_THREADS)
        \<longrightarrow> snd (interaction_check b u) = [SendMessage (disabled_new_thread_response b) True])"
  by (auto simp add: interaction_check_def split: option.splits)

theorem contact_interaction_check_witness:
  "guild_member example_bot 1 \<and> threads_find example_bot 1 = None \<and> \<not> is_blocked example_bot 1
   \<and> interaction_check example_bot 1 = (True, [])
   \<and> \<not> guild_member example_bot 9
   \<and> interaction_check example_bot 9 = (False, [Defer])
   \<and> threads_find example_bot 2 = Some \<lparr>thread_channel = Some ''<#50>''\<rparr>
   \<and> interaction_check example_bot 2
       = (False, [SendMessage ''A thread for you already exists in <#50>.'' True])
   \<and> is_blocked example_bot 3
   \<and> interaction_check example_bot 3
       = (False, [SendMessage ''You are currently blocked from contacting Modmail.'' True])
   \<and> dm_disabled (example_bot\<lparr>dm_disabled := NEW_THREADS\<rparr>) = NEW_THREADS
   \<and> interaction_check (example_bot\<lparr>dm_disabled := NEW_THREADS\<rparr>) 1
       = (False, [SendMessage ''We are not accepting new threads.'' True])"
  using
    contact_interaction_check [of example_bot 1 "\<lparr>thread_channel = Some ''<#50>''\<rparr>"]
    contact_interaction_check [of example_bot 9 "\<lparr>thread_channel = Some ''<#50>''\<rparr>"]
    contact_interaction_check [of example_bot 2 "\<lparr>thread_channel = Some ''<#50>''\<rparr>"]
    contact_interaction_check [of example_bot 3 "\<lparr>thread_channel = Some ''<#50>''\<rparr>"]
    contact_interaction_check
      [of "example_bot\<lparr>dm_disabled := NEW_THREADS\<rparr>" 1 "\<lparr>thread_channel = Some ''<#50>''\<rparr>"]
  by (simp add: example_bot_def prod_eq_iff)

text \<open>
  C9. A manager holds at most one contact view: constructing a view while the manager
  already has one raises \<^verbatim>\<open>RuntimeError\<close> and leaves the manager as it was; whenever
  the construction succeeds, the manager had no view before and holds the reference of
  the new view afterwards, with its configuration untouched.
\<close>

theorem contact_view_single_attachment:
  "(view manager \<noteq> None \<longrightarrow>
      ContactView_init style_by_name grey manager self message = (Inl RuntimeError, manager))
   \<and> (\<forall>v manager'. ContactView_init style_by_name grey manager self message = (Inr v, manager')
        \<longrightarrow> view manager = None \<and> manager' = manager\<lparr>view := Some self\<rparr> \<and> view_ref v = self)"
  by (auto simp add: ContactView_init_def Let_def split: sum.splits if_splits)

theorem contact_view_single_attachment_witness:
  "view (example_manager\<lparr>view := Some 4\<rparr>) \<noteq> None
   \<and> ContactView_init (\<lambda>n. if n = ''red'' then Some (4::nat) else None) 2
        (example_manager\<lparr>view := Some 4\<rparr>) 5 (Some 77)
       = (Inl RuntimeError, example_manager\<lparr>view := Some 4\<rparr>)
   \<and> ContactView_init (\<lambda>n. if n = ''red'' then Some (4::nat) else None) 2 example_manager 5 (Some 77)
       = (Inr \<lparr>view_ref = 5, view_message = Some 77, select_options = JList [],
               children = [\<lparr>emoji = JNone, label = JStr ''Contact'', style = 2,
                            custom_id = ''contact_button''\<rparr>]\<rparr>,
          example_manager\<lparr>view := Some 5\<rparr>)
   \<and> view (example_manager\<lparr>view := Some 5\<rparr>) = Some 5"
  using
    contact_view_single_attachment
      [of "example_manager\<lparr>view := Some 4\<rparr>" "\<lambda>n. if n = ''red'' then Some (4::nat) else None" 2 5
          "Some 77"]
    contact_view_single_attachment
      [of example_manager "\<lambda>n. if n = ''red'' then Some (4::nat) else None" 2 5 "Some 77"]
  by (simp add: ContactView_init_def Let_def example_manager_def)

subsection \<open>Member join and leave\<close>

lemma save_user_data_entry:
  "\<exists>ud. users (save_user_data st m i) (member_id m) = Some ud
     \<and> map_of (guilds ud) (str_int (member_guild m))
         = Some \<lparr>entry_invite = Some (to_invite_data i)\<rparr>"
  by (simp add: save_user_data_def Let_def update_conv' split: option.splits)

lemma save_user_data_sent [simp]: "sent (save_user_data s m i) = sent s"
  by (simp add: save_user_data_def Let_def)

lemma save_user_data_users_cong:
  "users s = users s' \<Longrightarrow> users (save_user_data s m i) = users (save_user_data s' m i)"
  by (simp add: save_user_data_def Let_def)

text \<open>
  C2, as stated, fails where the log send raises: the member is not a bot, logging and
  the data store are enabled, the channel exists and exactly one invite is predicted, but
  \<^verbatim>\<open>channel.send\<close> raises \<^verbatim>\<open>Forbidden\<close>. The exception leaves the handler, no
  embed is sent and no record is saved.
\<close>

theorem on_member_join_failing_send_counterexample:
  "\<not> is_bot example_member
   \<and> enable (fst (guild_config example_state (member_guild example_member)))
   \<and> store_data (fst (guild_config example_state (member_guild example_member)))
   \<and> py_int example_forbidden_framework
        (channel (fst (guild_config example_state (member_guild example_member)))) = Some 7
   \<and> get_channel example_forbidden_framework 7 = Some example_forbidden_channel
   \<and> channel_send example_forbidden_channel = Some Forbidden
   \<and> on_member_join example_forbidden_framework example_state example_member [example_invite] None
       = (Some Forbidden, example_state)
   \<and> users example_state (member_id example_member) = None
   \<and> sent example_state = []"
  by (simp add: on_member_join_def send_log_embed_def send_func_def get_or_create_webhook_def
      guild_config_def Let_def example_defs example_framework_def example_member_def str_int_1
      example_forbidden_channel_def example_forbidden_framework_def)

text \<open>
  C2, amended. For a join that the handler takes up (the member is not a bot, logging is
  enabled for the guild and the configured channel exists) the handler raises exactly
  what sending the log embed raises. When the send returns, exactly one embed has been
  sent: with exactly one predicted invite its description carries no warning, it has the
  field of the invite's uses, and the invite is saved under the member and the guild when
  \<open>store_data\<close> is set, while the user records stay as they were when it is not; with
  no or several predicted invites the description ends with the matching warning, the
  field is absent, and the user records stay as they were. When the send raises, nothing
  is sent and the user records stay as they were.
\<close>

theorem on_member_join_report_and_persist:
  assumes "\<not> is_bot member"
    and "enable (fst (guild_config st (member_guild member)))"
    and "py_int fw (channel (fst (guild_config st (member_guild member)))) = Some cid"
    and "get_channel fw cid = Some ch"
  shows "fst (on_member_join fw st member pred_invs vanity_inv)
        = fst (send_log_embed fw (snd (guild_config st (member_guild member))) ch
                 (join_embed member pred_invs vanity_inv))
    \<and> (fst (on_member_join fw st member pred_invs vanity_inv) = None \<longrightarrow>
          map sent_embed (sent (snd (on_member_join fw st member pred_invs vanity_inv)))
            = map sent_embed (sent st) @ [join_embed member pred_invs vanity_inv])
    \<and> (\<forall>i. pred_invs = [i] \<longrightarrow>
          description (join_embed member pred_invs vanity_inv)
            = member_mention member @ '' is the '' @ str_nat (join_position member)
                @ ordinal_suffix (join_position member) @ '' to join.'' @ nl
          \<and> (''Invite uses:'', str_int (inv_uses i))
                \<in> set (embed_fields (join_embed member pred_invs vanity_inv))
          \<and> (fst (on_member_join fw st member pred_invs vanity_inv) = None \<longrightarrow>
                users (snd (on_member_join fw st member pred_invs vanity_inv))
                  = (if store_data (fst (guild_config st (member_guild member)))
                     then users (save_user_data st member i) else users st))
          \<and> (fst (on_member_join fw st member pred_invs vanity_inv) = None
               \<and> store_data (fst (guild_config st (member_guild member))) \<longrightarrow>
                (\<exists>ud. users (snd (on_member_join fw st member pred_invs vanity_inv)) (member_id member)
                        = Some ud
                   \<and> map_of (guilds ud) (str_int (member_guild member))
                       = Some \<lparr>entry_invite = Some (to_invite_data i)\<rparr>)))
    \<and> (length pred_invs \<noteq> 1 \<longrightarrow>
          description (join_embed member pred_invs vanity_inv)
            = member_mention member @ '' is the '' @ str_nat (join_position member)
                @ ordinal_suffix (join_position member) @ '' to join.'' @ nl
                @ (if pred_invs = [] then unresolved_note else more_than_one_note)
          \<and> ''Invite uses:'' \<notin> fst ` set (embed_fields (join_embed member pred_invs vanity_inv))
          \<and> users (snd (on_member_join fw st member pred_invs vanity_inv)) = users st)
    \<and> (fst (on_member_join fw st member pred_invs vanity_inv) \<noteq> None \<longrightarrow>
          users (snd (on_member_join fw st member pred_invs vanity_inv)) = users st
          \<and> sent (snd (on_member_join fw st member pred_invs vanity_inv)) = sent st)"
proof -
  let ?e = "join_embed member pred_invs vanity_inv"
  obtain config st1 where gc: "guild_config st (member_guild member) = (config, st1)"
    by (cases "guild_config st (member_guild member)")
  have u1: "users st1 = users st" and s1: "sent st1 = sent st"
    using guild_config_users [of st "member_guild member"]
      guild_config_sent [of st "member_guild member"] gc
    by simp_all
  obtain r st2 where sl: "send_log_embed fw st1 ch ?e = (r, st2)"
    by (cases "send_log_embed fw st1 ch ?e")
  have u2: "users st2 = users st"
    using send_log_embed_users [of fw st1 ch ?e] sl u1 by simp
  have run: "on_member_join fw st member pred_invs vanity_inv
      = (case r of
           Some e \<Rightarrow> (Some e, st2)
         | None \<Rightarrow>
             (if length pred_invs = 1 \<and> store_data config
              then (None, save_user_data st2 member (hd pred_invs)) else (None, st2)))"
    using assms gc sl by (simp add: on_member_join_def split: option.splits)
  have A: "fst (on_member_join fw st member pred_invs vanity_inv)
        = fst (send_log_embed fw (snd (guild_config st (member_guild member))) ch ?e)"
    using gc sl by (simp add: run split: option.splits)
  have B: "map sent_embed (sent (snd (on_member_join fw st member pred_invs vanity_inv)))
            = map sent_embed (sent st) @ [?e]"
    if "fst (on_member_join fw st member pred_invs vanity_inv) = None"
  proof -
    have "r = None" using that by (simp add: run split: option.splits)
    then have "map sent_embed (sent st2) = map sent_embed (sent st) @ [?e]"
      using send_log_embed_returns [of fw st1 ch ?e] sl s1 by simp
    then show ?thesis using \<open>r = None\<close> by (simp add: run)
  qed
  have C1: "description ?e
            = member_mention member @ '' is the '' @ str_nat (join_position member)
                @ ordinal_suffix (join_position member) @ '' to join.'' @ nl
          \<and> (''Invite uses:'', str_int (inv_uses i)) \<in> set (embed_fields ?e)"
    if "pred_invs = [i]" for i
    using that by (simp add: Let_def join_embed_def)
  have C2: "users (snd (on_member_join fw st member pred_invs vanity_inv))
                  = (if store_data (fst (guild_config st (member_guild member)))
                     then users (save_user_data st member i) else users st)"
    if "pred_invs = [i]" "fst (on_member_join fw st member pred_invs vanity_inv) = None" for i
  proof -
    have "r = None" using that(2) by (simp add: run split: option.splits)
    then show ?thesis
      using that(1) gc u2 save_user_data_users_cong [OF u2, of member i] run
      by simp
  qed
  have C3: "\<exists>ud. users (snd (on_member_join fw st member pred_invs vanity_inv)) (member_id member)
                  = Some ud
             \<and> map_of (guilds ud) (str_int (member_guild member))
                 = Some \<lparr>entry_invite = Some (to_invite_data i)\<rparr>"
    if "pred_invs = [i]" "fst (on_member_join fw st member pred_invs vanity_inv) = None"
      "store_data (fst (guild_config st (member_guild member)))" for i
    using C2 [OF that(1,2)] that(3) save_user_data_entry [of st member i] by simp
  have D1: "description ?e
            = member_mention member @ '' is the '' @ str_nat (join_position member)
                @ ordinal_suffix (join_position member) @ '' to join.'' @ nl
                @ (if pred_invs = [] then unresolved_note else more_than_one_note)
          \<and> ''Invite uses:'' \<notin> fst ` set (embed_fields ?e)"
    if "length pred_invs \<noteq> 1"
    using that
    by (cases pred_invs; cases "tl pred_invs") (auto simp add: Let_def join_embed_def)
  have D2: "users (snd (on_member_join fw st member pred_invs vanity_inv)) = users st"
    if "length pred_invs \<noteq> 1"
    using that u2 by (simp add: run split: option.splits)
  have E: "users (snd (on_member_join fw st member pred_invs vanity_inv)) = users st
          \<and> sent (snd (on_member_join fw st member pred_invs vanity_inv)) = sent st"
    if "fst (on_member_join fw st member pred_invs vanity_inv) \<noteq> None"
  proof -
    have "r \<noteq> None" using that by (auto simp add: run split: option.splits if_splits)
    moreover from this have "sent st2 = sent st"
      using send_log_embed_raises [of fw st1 ch ?e] sl s1 by simp
    ultimately show ?thesis using u2 by (auto simp add: run)
  qed
  show ?thesis using A B C1 C2 C3 D1 D2 E by blast
qed

theorem on_member_join_report_and_persist_witness:
  "\<not> is_bot example_member
   \<and> enable (fst (guild_config example_state (member_guild example_member)))
   \<and> py_int example_framework (channel (fst (guild_config example_state (member_guild example_member))))
       = Some 7
   \<and> get_channel example_framework 7 = Some example_channel
   \<and> fst (on_member_join example_framework example_state example_member [example_invite] None) = None
   \<and> map sent_embed (sent (snd (on_member_join example_framework example_state example_member
                                   [example_invite] None)))
       = [join_embed example_member [example_invite] None]
   \<and> users (snd (on_member_join example_framework example_state example_member
                    [example_invite] None)) 10
       = Some \<lparr>guilds = [(''1'', example_entry)]\<rparr>
   \<and> description (join_embed example_member [] None)
       = ''<@10> is the 12th to join.'' @ nl @ unresolved_note
   \<and> users (snd (on_member_join example_framework example_state example_member [] None)) 10 = None
   \<and> description (join_embed example_member [example_invite, example_invite2] None)
       = ''<@10> is the 12th to join.'' @ nl @ more_than_one_note
   \<and> users (snd (on_member_join example_framework example_state example_member
                    [example_invite, example_invite2] None)) 10 = None
   \<and> fst (on_member_join (example_framework\<lparr>avatar_read := Some HTTPException\<rparr>) example_state
             example_member [example_invite] None) = Some HTTPException
   \<and> users (snd (on_member_join (example_framework\<lparr>avatar_read := Some HTTPException\<rparr>) example_state
                    example_member [example_invite] None)) 10 = None"
  using
    on_member_join_report_and_persist
      [of example_member example_state example_framework 7 example_channel "[example_invite]" None]
    on_member_join_report_and_persist
      [of example_member example_state example_framework 7 example_channel "[]" None]
    on_member_join_report_and_persist
      [of example_member example_state example_framework 7 example_channel
          "[example_invite, example_invite2]" None]
    on_member_join_report_and_persist
      [of example_member example_state "example_framework\<lparr>avatar_read := Some HTTPException\<rparr>" 7
          example_channel "[example_invite]" None]
  by (simp add: send_log_embed_def send_func_def get_or_create_webhook_def
      guild_config_def Let_def example_defs example_member_def example_framework_def
      str_int_1 save_user_data_def to_invite_data_def example_invite_def example_entry_def
      str_nat.simps ordinal_suffix_def)

lemma on_member_join_not_taken_up:
  assumes "is_bot member \<or> \<not> enable (fst (guild_config st (member_guild member)))"
  shows "users (snd (on_member_join fw st member pred_invs vanity_inv)) = users st"
    and "sent (snd (on_member_join fw st member pred_invs vanity_inv)) = sent st"
proof -
  obtain config st1 where gc: "guild_config st (member_guild member) = (config, st1)"
    by (cases "guild_config st (member_guild member)")
  have "users st1 = users st" "sent st1 = sent st"
    using guild_config_users [of st "member_guild member"]
      guild_config_sent [of st "member_guild member"] gc
    by simp_all
  then show "users (snd (on_member_join fw st member pred_invs vanity_inv)) = users st"
    and "sent (snd (on_member_join fw st member pred_invs vanity_inv)) = sent st"
    using assms gc by (auto simp add: on_member_join_def)
qed

lemma on_member_remove_users:
  "users (snd (on_member_remove fw st member))
     = (if is_bot member \<or> \<not> enable (fst (guild_config st (member_guild member))) then users st
        else users (snd (pop_guild_entry (snd (guild_config st (member_guild member)))
                           (fst (guild_config st (member_guild member))) member)))"
proof -
  obtain config st1 where gc: "guild_config st (member_guild member) = (config, st1)"
    by (cases "guild_config st (member_guild member)")
  obtain invdata st2 where pg: "pop_guild_entry st1 config member = (invdata, st2)"
    by (cases "pop_guild_entry st1 config member")
  have "users st1 = users st"
    using guild_config_users [of st "member_guild member"] gc by simp
  then show ?thesis
    using gc pg by (simp add: on_member_remove_def split: option.splits)
qed

lemma pop_guild_entry_users:
  assumes "users st (member_id member) = Some ud"
    and "map_of (guilds ud) (str_int (member_guild member)) = Some entry"
  shows "users (snd (pop_guild_entry st config member))
     = (if AList.delete (str_int (member_guild member)) (guilds ud) = [] \<or> \<not> store_data config
        then (users st)(member_id member := None)
        else (users st)(member_id member \<mapsto>
               ud\<lparr>guilds := AList.delete (str_int (member_guild member)) (guilds ud)\<rparr>))"
  using assms
  by (simp add: pop_guild_entry_def get_user_data_def remove_user_data_def update_user_data_def Let_def)

text \<open>
  C3, as stated, fails: the handler returns before it looks at the stored record when
  logging is disabled for the guild. Here the member is not a bot and has a record with
  an entry for the guild, logging is off, and the record is still there afterwards.
\<close>

theorem on_member_remove_disabled_counterexample:
  "\<not> is_bot example_member
   \<and> users (example_state\<lparr>cache := [''1'' \<mapsto> example_config\<lparr>enable := False\<rparr>],
                            users := [10 \<mapsto> \<lparr>guilds = [(''1'', example_entry)]\<rparr>]\<rparr>)
        (member_id example_member)
       = Some \<lparr>guilds = [(''1'', example_entry)]\<rparr>
   \<and> str_int (member_guild example_member) = ''1''
   \<and> users (snd (on_member_remove example_framework
                    (example_state\<lparr>cache := [''1'' \<mapsto> example_config\<lparr>enable := False\<rparr>],
                                    users := [10 \<mapsto> \<lparr>guilds = [(''1'', example_entry)]\<rparr>]\<rparr>)
                    example_member))
        (member_id example_member)
       = Some \<lparr>guilds = [(''1'', example_entry)]\<rparr>"
  by (simp add: on_member_remove_users guild_config_def Let_def example_defs example_member_def
      str_int_1)

text \<open>
  C3, amended. When a member who is not a bot leaves a guild with logging enabled and
  has a stored record with an entry for that guild, the entry is removed and the other
  entries are unchanged; the record is deleted exactly when the data store is disabled
  for the guild or no entry remains, and otherwise it is kept with the remaining entries.
  The records of other users are untouched. For a bot, or with logging disabled, the
  handler leaves all records as they are.
\<close>

theorem on_member_remove_record:
  "(\<not> is_bot member \<and> enable (fst (guild_config st (member_guild member)))
     \<and> users st (member_id member) = Some ud
     \<and> map_of (guilds ud) (str_int (member_guild member)) = Some entry
    \<longrightarrow> map_of (AList.delete (str_int (member_guild member)) (guilds ud))
            (str_int (member_guild member)) = None
      \<and> (\<forall>k. k \<noteq> str_int (member_guild member) \<longrightarrow>
            map_of (AList.delete (str_int (member_guild member)) (guilds ud)) k
              = map_of (guilds ud) k)
      \<and> (users (snd (on_member_remove fw st member)) (member_id member) = None
           \<longleftrightarrow> \<not> store_data (fst (guild_config st (member_guild member)))
               \<or> AList.delete (str_int (member_guild member)) (guilds ud) = [])
      \<and> (users (snd (on_member_remove fw st member)) (member_id member) \<noteq> None
           \<longrightarrow> users (snd (on_member_remove fw st member)) (member_id member)
               = Some (ud\<lparr>guilds := AList.delete (str_int (member_guild member)) (guilds ud)\<rparr>))
      \<and> (\<forall>u. u \<noteq> member_id member \<longrightarrow>
            users (snd (on_member_remove fw st member)) u = users st u))
   \<and> (is_bot member \<or> \<not> enable (fst (guild_config st (member_guild member)))
    \<longrightarrow> users (snd (on_member_remove fw st member)) = users st)"
proof -
  have keep: "is_bot member \<or> \<not> enable (fst (guild_config st (member_guild member)))
    \<Longrightarrow> users (snd (on_member_remove fw st member)) = users st"
    by (simp add: on_member_remove_users)
  have main: "users (snd (on_member_remove fw st member))
      = (if AList.delete (str_int (member_guild member)) (guilds ud) = []
            \<or> \<not> store_data (fst (guild_config st (member_guild member)))
         then (users st)(member_id member := None)
         else (users st)(member_id member \<mapsto>
               ud\<lparr>guilds := AList.delete (str_int (member_guild member)) (guilds ud)\<rparr>))"
    if h: "\<not> is_bot member" "enable (fst (guild_config st (member_guild member)))"
      "users st (member_id member) = Some ud"
      "map_of (guilds ud) (str_int (member_guild member)) = Some entry"
  proof -
    have "users (snd (guild_config st (member_guild member))) (member_id member) = Some ud"
      using h(3) by simp
    from pop_guild_entry_users [OF this h(4)] h(1,2) show ?thesis
      by (simp add: on_member_remove_users)
  qed
  have del: "map_of (AList.delete k al) k = None"
    "\<And>k'. k' \<noteq> k \<Longrightarrow> map_of (AList.delete k al) k' = map_of al k'"
    for k and al :: "(string \<times> GuildEntry) list"
    by (simp_all add: delete_conv')
  show ?thesis
    using keep main del by auto
qed

theorem on_member_remove_record_witness:
  "\<not> is_bot example_member
   \<and> enable (fst (guild_config example_state (member_guild example_member)))
   \<and> str_int (member_guild example_member) = ''1''
   \<and> users (snd (on_member_remove example_framework
                    (example_state\<lparr>users := [10 \<mapsto> \<lparr>guilds = [(''1'', example_entry)]\<rparr>]\<rparr>)
                    example_member)) 10 = None
   \<and> users (snd (on_member_remove example_framework
                    (example_state\<lparr>users := [10 \<mapsto> \<lparr>guilds = [(''1'', example_entry),
                                                              (''2'', example_entry)]\<rparr>]\<rparr>)
                    example_member)) 10
       = Some \<lparr>guilds = [(''2'', example_entry)]\<rparr>
   \<and> users (snd (on_member_remove example_framework
                    (example_state\<lparr>cache := [''1'' \<mapsto> example_config\<lparr>store_data := False\<rparr>],
                                    users := [10 \<mapsto> \<lparr>guilds = [(''1'', example_entry),
                                                              (''2'', example_entry)]\<rparr>]\<rparr>)
                    example_member)) 10 = None
   \<and> users (snd (on_member_remove example_framework
                    (example_state\<lparr>users := [10 \<mapsto> \<lparr>guilds = [(''1'', example_entry)]\<rparr>]\<rparr>)
                    (example_member\<lparr>is_bot := True\<rparr>))) 10
       = Some \<lparr>guilds = [(''1'', example_entry)]\<rparr>"
  using
    on_member_remove_record
      [of example_member "example_state\<lparr>users := [10 \<mapsto> \<lparr>guilds = [(''1'', example_entry)]\<rparr>]\<rparr>"
          "\<lparr>guilds = [(''1'', example_entry)]\<rparr>" example_entry example_framework]
    on_member_remove_record
      [of example_member
          "example_state\<lparr>users := [10 \<mapsto> \<lparr>guilds = [(''1'', example_entry), (''2'', example_entry)]\<rparr>]\<rparr>"
          "\<lparr>guilds = [(''1'', example_entry), (''2'', example_entry)]\<rparr>" example_entry example_framework]
    on_member_remove_record
      [of example_member
          "example_state\<lparr>cache := [''1'' \<mapsto> example_config\<lparr>store_data := False\<rparr>],
                         users := [10 \<mapsto> \<lparr>guilds = [(''1'', example_entry), (''2'', example_entry)]\<rparr>]\<rparr>"
          "\<lparr>guilds = [(''1'', example_entry), (''2'', example_entry)]\<rparr>" example_entry example_framework]
    on_member_remove_record
      [of "example_member\<lparr>is_bot := True\<rparr>"
          "example_state\<lparr>users := [10 \<mapsto> \<lparr>guilds = [(''1'', example_entry)]\<rparr>]\<rparr>"
          "\<lparr>guilds = [(''1'', example_entry)]\<rparr>" example_entry example_framework]
  by (simp add: guild_config_def Let_def example_defs example_member_def str_int_1)

subsection \<open>Invite-usage inference\<close>





subsection \<open>Resolving defaults into a stored document\<close>

lemma partial_of_update:
  "key \<notin> fst ` set base \<Longrightarrow> partial_of base (AList.update key v d) = partial_of base d"
  by (induction base d rule: partial_of.induct) (auto simp add: update_conv' split: json.splits option.splits)

lemma partial_of_head:
  "partial_of ((key, JDict inner) # base) d \<Longrightarrow> map_of d key = Some x
     \<Longrightarrow> \<exists>s. x = JDict s \<and> partial_of inner s"
  by (auto split: json.splits option.splits)

lemma map_of_None_notin: "key \<notin> fst ` set base \<Longrightarrow> map_of base key = None"
  by (simp add: map_of_eq_None_iff)

lemma resolve_dict:
  "distinct_keys base \<Longrightarrow> partial_of base d
     \<Longrightarrow> \<exists>d'. recursively_resolve_keys base (JDict d) = Inr (JDict d') \<and> resolved base d d'"
proof (induction "size (JDict base)" arbitrary: base d rule: less_induct)
  case less
  show ?case
  proof (cases base)
    case Nil
    then show ?thesis by (simp add: resolved_def)
  next
    case (Cons p rest)
    obtain key val where p: "p = (key, val)" by (cases p)
    have base: "base = (key, val) # rest" using Cons p by simp
    have fresh: "key \<notin> fst ` set rest" and drest: "distinct_keys rest"
      using less.prems(1) base by simp_all
    have prest: "partial_of rest d" using less.prems(2) base by simp
    have none_rest: "map_of rest key = None" using fresh by (rule map_of_None_notin)
    have srest: "size (JDict rest) < size (JDict base)" using base by simp
    show ?thesis
    proof (cases "map_of d key")
      case None
      let ?d1 = "AList.update key val d"
      have "partial_of rest ?d1" using prest fresh by (simp add: partial_of_update)
      from less.hyps [OF srest drest this]
      obtain d' where r: "recursively_resolve_keys rest (JDict ?d1) = Inr (JDict d')"
        and q: "resolved rest ?d1 d'" by blast
      have run: "recursively_resolve_keys base (JDict d) = Inr (JDict d')"
        using base None r by (simp add: deepcopy_def)
      have "resolved base d d'"
        using q None none_rest unfolding resolved_def base
        by (auto simp add: update_conv')
      then show ?thesis using run by blast
    next
      case (Some x)
      show ?thesis
      proof (cases "is_dict val")
        case True
        then obtain inner where val: "val = JDict inner" by (cases val) simp_all
        obtain s where x: "x = JDict s" and ps: "partial_of inner s"
          using partial_of_head [of key inner rest d x] less.prems(2) base val Some by blast
        have dinner: "distinct_keys inner" using less.prems(1) base val by simp
        have sinner: "size (JDict inner) < size (JDict base)" using base val by simp
        from less.hyps [OF sinner dinner ps]
        obtain s' where ri: "recursively_resolve_keys inner (JDict s) = Inr (JDict s')" by blast
        let ?d1 = "AList.update key (JDict s') d"
        have "partial_of rest ?d1" using prest fresh by (simp add: partial_of_update)
        from less.hyps [OF srest drest this]
        obtain d' where r: "recursively_resolve_keys rest (JDict ?d1) = Inr (JDict d')"
          and q: "resolved rest ?d1 d'" by blast
        have run: "recursively_resolve_keys base (JDict d) = Inr (JDict d')"
          using base val Some x ri r by simp
        have "resolved base d d'"
          using q Some x ri ps dinner none_rest unfolding resolved_def base val
          by (auto simp add: update_conv')
        then show ?thesis using run by blast
      next
        case False
        from less.hyps [OF srest drest prest]
        obtain d' where r: "recursively_resolve_keys rest (JDict d) = Inr (JDict d')"
          and q: "resolved rest d d'" by blast
        have run: "recursively_resolve_keys base (JDict d) = Inr (JDict d')"
          using base False Some r by (cases val) simp_all
        have "resolved base d d'"
          using q Some False none_rest unfolding resolved_def base
          by auto
        then show ?thesis using run by blast
      qed
    qed
  qed
qed


lemma lookup_path_leaf: "\<not> is_dict v \<Longrightarrow> p \<noteq> [] \<Longrightarrow> lookup_path v p = None"
  by (cases v; cases p) simp_all

lemma lookup_path_append:
  "lookup_path v (p @ [k]) = (case lookup_path v p of None \<Rightarrow> None | Some y \<Rightarrow> lookup_path y [k])"
proof (induction p arbitrary: v)
  case Nil
  then show ?case by simp
next
  case (Cons a p)
  show ?case
  proof (cases v)
    case (JDict d)
    then show ?thesis using Cons.IH by (simp split: option.splits)
  qed simp_all
qed

lemma resolved_paths_present:
  "distinct_keys base \<Longrightarrow> partial_of base d
     \<Longrightarrow> recursively_resolve_keys base (JDict d) = Inr (JDict d')
     \<Longrightarrow> lookup_path (JDict base) p \<noteq> None \<Longrightarrow> lookup_path (JDict d') p \<noteq> None"
proof (induction p arbitrary: base d d')
  case Nil
  then show ?case by simp
next
  case (Cons k ks)
  from resolve_dict [OF Cons.prems(1,2)] Cons.prems(3)
  have q: "resolved base d d'" by auto
  from Cons.prems(4) obtain bv where bv: "map_of base k = Some bv"
    and rest: "lookup_path bv ks \<noteq> None"
    by (auto split: option.splits)
  show ?case
  proof (cases "map_of d k")
    case None
    then have "map_of d' k = Some bv" using q bv unfolding resolved_def by blast
    then show ?thesis using rest by simp
  next
    case (Some x)
    show ?thesis
    proof (cases "is_dict bv")
      case True
      then obtain inner where inner: "bv = JDict inner" by (cases bv) simp_all
      from q bv Some inner obtain s s' where
        "x = JDict s" "partial_of inner s" "distinct_keys inner"
        "recursively_resolve_keys inner (JDict s) = Inr (JDict s')" "map_of d' k = Some (JDict s')"
        unfolding resolved_def by blast
      then show ?thesis using Cons.IH [of inner s s'] rest inner by simp
    next
      case False
      have "ks = []"
      proof (rule ccontr)
        assume "ks \<noteq> []"
        with False have "lookup_path bv ks = None" by (rule lookup_path_leaf)
        with rest show False by simp
      qed
      moreover have "map_of d' k = Some x" using q bv Some False unfolding resolved_def by blast
      ultimately show ?thesis by simp
    qed
  qed
qed

lemma resolved_paths_kept:
  "distinct_keys base \<Longrightarrow> partial_of base d
     \<Longrightarrow> recursively_resolve_keys base (JDict d) = Inr (JDict d')
     \<Longrightarrow> lookup_path (JDict d) p = Some v
     \<Longrightarrow> \<exists>v'. lookup_path (JDict d') p = Some v' \<and> (\<not> is_dict v \<longrightarrow> v' = v)"
proof (induction p arbitrary: base d d')
  case Nil
  then show ?case by auto
next
  case (Cons k ks)
  from resolve_dict [OF Cons.prems(1,2)] Cons.prems(3)
  have q: "resolved base d d'" by auto
  from Cons.prems(4) obtain x where x: "map_of d k = Some x" and rest: "lookup_path x ks = Some v"
    by (auto split: option.splits)
  show ?case
  proof (cases "map_of base k")
    case None
    then have "map_of d' k = Some x" using q x unfolding resolved_def by simp
    then show ?thesis using rest by simp
  next
    case (Some bv)
    show ?thesis
    proof (cases "is_dict bv")
      case True
      then obtain inner where inner: "bv = JDict inner" by (cases bv) simp_all
      from q Some x inner obtain s s' where
        "x = JDict s" "partial_of inner s" "distinct_keys inner"
        "recursively_resolve_keys inner (JDict s) = Inr (JDict s')" "map_of d' k = Some (JDict s')"
        unfolding resolved_def by blast
      then show ?thesis using Cons.IH [of inner s s'] rest by simp
    next
      case False
      then have "map_of d' k = Some x" using q Some x unfolding resolved_def by blast
      then show ?thesis using rest by simp
    qed
  qed
qed

lemma resolved_missing_filled:
  "distinct_keys base \<Longrightarrow> partial_of base d
     \<Longrightarrow> recursively_resolve_keys base (JDict d) = Inr (JDict d')
     \<Longrightarrow> lookup_path (JDict d) p = Some (JDict sub) \<Longrightarrow> map_of sub k = None
     \<Longrightarrow> lookup_path (JDict d') (p @ [k]) = lookup_path (JDict base) (p @ [k])"
proof (induction p arbitrary: base d d')
  case Nil
  from resolve_dict [OF Nil.prems(1,2)] Nil.prems(3)
  have q: "resolved base d d'" by auto
  have "map_of d k = None" using Nil.prems(4,5) by simp
  then have "map_of d' k = map_of base k"
    using q unfolding resolved_def by (cases "map_of base k") auto
  then show ?case by (simp split: option.splits)
next
  case (Cons k1 ks)
  from resolve_dict [OF Cons.prems(1,2)] Cons.prems(3)
  have q: "resolved base d d'" by auto
  from Cons.prems(4) obtain x where x: "map_of d k1 = Some x"
    and rest: "lookup_path x ks = Some (JDict sub)"
    by (auto split: option.splits)
  have gone: "lookup_path x (ks @ [k]) = None"
    using rest Cons.prems(5) by (simp add: lookup_path_append)
  show ?case
  proof (cases "map_of base k1")
    case None
    then have "map_of d' k1 = Some x" using q x unfolding resolved_def by simp
    then show ?thesis using gone None by simp
  next
    case (Some bv)
    show ?thesis
    proof (cases "is_dict bv")
      case True
      then obtain inner where inner: "bv = JDict inner" by (cases bv) simp_all
      from q Some x inner obtain s s' where
        "x = JDict s" "partial_of inner s" "distinct_keys inner"
        "recursively_resolve_keys inner (JDict s) = Inr (JDict s')" "map_of d' k1 = Some (JDict s')"
        unfolding resolved_def by blast
      then show ?thesis
        using Cons.IH [of inner s s'] rest Cons.prems(5) Some inner by simp
    next
      case False
      then have "map_of d' k1 = Some x" using q Some x unfolding resolved_def by blast
      moreover have "lookup_path bv (ks @ [k]) = None"
        using False by (rule lookup_path_leaf) simp
      ultimately show ?thesis using gone Some by simp
    qed
  qed
qed

lemma distinct_keys_default: "distinct_keys default_document"
  by (simp add: default_document_def)

lemma fetch_not_partial_raises: "fetch [(''contact'', JNone)] = Inl TypeError"
  by (simp add: fetch_def default_document_def)

text \<open>
  C6. A stored document is partial when, wherever the default document has a dictionary
  and the stored document has the key, the stored value is a dictionary as well. Loading
  such a document succeeds, and in the loaded document: every key path of the default
  document is present; a key that is missing from a stored dictionary holds exactly what
  the default document holds at that path (nothing, if the defaults have nothing there);
  every key path of the stored document is still present, and a stored value that is not
  a dictionary is unchanged, while a stored dictionary keeps all its entries and may gain
  the missing ones. Values have no identity here, so a deep copy of a default is the
  default's value.
\<close>

theorem fetch_resolves_defaults:
  assumes "partial_of default_document stored"
  shows "\<exists>loaded. fetch stored = Inr (JDict loaded)
     \<and> (\<forall>p. lookup_path (JDict default_document) p \<noteq> None
            \<longrightarrow> lookup_path (JDict loaded) p \<noteq> None)
     \<and> (\<forall>p k sub. lookup_path (JDict stored) p = Some (JDict sub) \<and> map_of sub k = None
            \<longrightarrow> lookup_path (JDict loaded) (p @ [k])
                 = lookup_path (JDict default_document) (p @ [k]))
     \<and> (\<forall>p v. lookup_path (JDict stored) p = Some v
            \<longrightarrow> (\<exists>v'. lookup_path (JDict loaded) p = Some v' \<and> (\<not> is_dict v \<longrightarrow> v' = v)))"
proof -
  from resolve_dict [OF distinct_keys_default assms]
  obtain loaded where run: "recursively_resolve_keys default_document (JDict stored) = Inr (JDict loaded)"
    by blast
  note facts = distinct_keys_default assms run
  have "lookup_path (JDict loaded) p \<noteq> None"
    if "lookup_path (JDict default_document) p \<noteq> None" for p
    using resolved_paths_present [OF facts that] .
  moreover have "lookup_path (JDict loaded) (p @ [k]) = lookup_path (JDict default_document) (p @ [k])"
    if "lookup_path (JDict stored) p = Some (JDict sub)" "map_of sub k = None" for p k sub
    using resolved_missing_filled [OF facts that] .
  moreover have "\<exists>v'. lookup_path (JDict loaded) p = Some v' \<and> (\<not> is_dict v \<longrightarrow> v' = v)"
    if "lookup_path (JDict stored) p = Some v" for p v
    using resolved_paths_kept [OF facts that] .
  ultimately show ?thesis using run unfolding fetch_def by blast
qed

theorem fetch_resolves_defaults_witness:
  "partial_of default_document example_stored
   \<and> (\<exists>loaded. fetch example_stored = Inr (JDict loaded)
        \<and> lookup_path (JDict loaded) [''feedback'', ''rating'', ''enable''] \<noteq> None
        \<and> lookup_path (JDict loaded) [''contact'', ''embed'', ''footer''] = Some JNone
        \<and> lookup_path (JDict loaded) [''contact'', ''channel''] = Some (JStr ''123'')
        \<and> lookup_path (JDict loaded) [''contact'', ''embed'', ''title''] = Some (JStr ''Help''))"
proof -
  have h: "partial_of default_document example_stored"
    by (simp add: default_document_def example_stored_def)
  from fetch_resolves_defaults [OF h]
  obtain loaded where run: "fetch example_stored = Inr (JDict loaded)"
    and present: "\<forall>p. lookup_path (JDict default_document) p \<noteq> None
            \<longrightarrow> lookup_path (JDict loaded) p \<noteq> None"
    and filled: "\<forall>p k sub. lookup_path (JDict example_stored) p = Some (JDict sub) \<and> map_of sub k = None
            \<longrightarrow> lookup_path (JDict loaded) (p @ [k])
                 = lookup_path (JDict default_document) (p @ [k])"
    and kept: "\<forall>p v. lookup_path (JDict example_stored) p = Some v
            \<longrightarrow> (\<exists>v'. lookup_path (JDict loaded) p = Some v' \<and> (\<not> is_dict v \<longrightarrow> v' = v))"
    by blast
  have a: "lookup_path (JDict loaded) [''feedback'', ''rating'', ''enable''] \<noteq> None"
    using present [rule_format, of "[''feedback'', ''rating'', ''enable'']"]
    by (simp add: default_document_def)
  have b: "lookup_path (JDict loaded) [''contact'', ''embed'', ''footer''] = Some JNone"
    using filled [rule_format, of "[''contact'', ''embed'']" "[(''title'', JStr ''Help'')]" "''footer''"]
    by (simp add: default_document_def example_stored_def)
  have c: "lookup_path (JDict loaded) [''contact'', ''channel''] = Some (JStr ''123'')"
    using kept [rule_format, of "[''contact'', ''channel'']" "JStr ''123''"]
    by (simp add: example_stored_def)
  have d: "lookup_path (JDict loaded) [''contact'', ''embed'', ''title''] = Some (JStr ''Help'')"
    using kept [rule_format, of "[''contact'', ''embed'', ''title'']" "JStr ''Help''"]
    by (simp add: example_stored_def)
  show ?thesis using h run a b c d by blast
qed

end
